theory Spec2Isabelle
  imports Complex_Main "HOL-Library.AList"
begin

section \<open>JavaScript values\<close>

text \<open>
  The configuration of \<open>sharper\<close> is an untyped JavaScript object, and the source tests
  its fields with \<open>=== true\<close>, \<open>!== false\<close> and lodash predicates, so the model keeps
  values untyped. A finite number is a rational here (the two zeros are one value); an
  object is its list of own enumerable properties in insertion order.
\<close>

datatype jsnum = Finite rat | NaN | PosInfinity | NegInfinity

datatype jsval =
    JUndefined
  | JNull
  | JBool bool
  | JNum jsnum
  | JStr string
  | JArr "jsval list"
  | JObj "(string \<times> jsval) list"

type_synonym object = "(string \<times> jsval) list"

abbreviation num :: "rat \<Rightarrow> jsval" where
  "num r \<equiv> JNum (Finite r)"

text \<open>Property read \<open>o.k\<close>: a missing property reads as \<open>undefined\<close>.\<close>

definition property :: "object \<Rightarrow> string \<Rightarrow> jsval" where
  "property obj k = (case map_of obj k of None \<Rightarrow> JUndefined | Some v \<Rightarrow> v)"

text \<open>Truthiness, as \<open>||\<close> tests it.\<close>

fun truthy :: "jsval \<Rightarrow> bool" where
  "truthy JUndefined = False"
| "truthy JNull = False"
| "truthy (JBool b) = b"
| "truthy (JNum (Finite r)) = (r \<noteq> 0)"
| "truthy (JNum NaN) = False"
| "truthy (JNum PosInfinity) = True"
| "truthy (JNum NegInfinity) = True"
| "truthy (JStr s) = (s \<noteq> [])"
| "truthy (JArr xs) = True"
| "truthy (JObj kvs) = True"

text \<open>\<open>a || b\<close>\<close>

definition js_or :: "jsval \<Rightarrow> jsval \<Rightarrow> jsval" where
  "js_or a b = (if truthy a then a else b)"

fun is_primitive :: "jsval \<Rightarrow> bool" where
  "is_primitive (JArr xs) = False"
| "is_primitive (JObj kvs) = False"
| "is_primitive v = True"

text \<open>
  SameValueZero, the comparison of lodash's \<open>includes\<close> on an array: primitives by value
  (\<open>NaN\<close> equal to itself, no coercion), an array or object only to itself by reference.
  The values searched for in this program (a file extension, a rotation angle read from
  the configuration) never alias an element of the searched array, so a comparison with
  an array or object is false.
\<close>

definition sameValueZero :: "jsval \<Rightarrow> jsval \<Rightarrow> bool" where
  "sameValueZero a b = (is_primitive a \<and> a = b)"

section \<open>The libraries the module calls\<close>

text \<open>The chainable methods of a sharp instance, as the source calls them.\<close>

datatype call =
    Background jsval
  | Resize jsval jsval
  | Crop jsval
  | Embed
  | Max
  | Min
  | WithoutEnlargement
  | IgnoreAspectRatio
  | Extract jsval
  | Trim jsval
  | Flatten
  | Extend jsval
  | Negate
  | Rotate jsval
  | Flip
  | Flop
  | Blur "jsval option"
  | Sharpen
  | Gamma "jsval option"
  | Grayscale
  | Normalize
  | Quality jsval
  | Progressive

text \<open>The options object handed to \<open>multer\<close> (lines 173-193).\<close>

record multer_options =
  mo_destination :: string
  mo_filename :: string
  mo_fileSize :: jsval
  mo_files :: nat
  mo_field :: jsval

text \<open>
  Everything outside \<open>src/index.js\<close> is a parameter: the tables and conversions of
  lodash, mime-types, dateformat, randomstring, bytes and sharp, the clock, the random
  source, and the outcome of each input/output action (\<open>None\<close> is success, \<open>Some e\<close> the
  error handed to the callback). sharp checks the arguments of a method when it is
  called and throws on a value it rejects: \<open>sharp_throws X c\<close> is the exception call \<open>c\<close>
  throws, \<open>None\<close> when sharp accepts the call.
\<close>

record extern =
  mime_extension :: "jsval \<Rightarrow> jsval"
  dateformat :: "jsval \<Rightarrow> string"
  randomstring_generate :: "jsval \<Rightarrow> string"
  bytes :: "jsval \<Rightarrow> jsval"
  has_gravity :: "jsval \<Rightarrow> bool"
  gravity_at :: "jsval \<Rightarrow> jsval"
  toInteger :: "jsval \<Rightarrow> jsval"
  toNumber :: "jsval \<Rightarrow> jsval"
  toString_nonstring :: "jsval \<Rightarrow> string"
  includes_nonarray :: "jsval \<Rightarrow> jsval \<Rightarrow> bool"
  sharp_throws :: "call \<Rightarrow> jsval option"
  upload_io :: "multer_options \<Rightarrow> jsval option"
  toFile_io :: "string \<Rightarrow> call list \<Rightarrow> jsval option"
  toFile_done :: "string \<Rightarrow> nat"
  unlink_io :: "string \<Rightarrow> jsval option"

text \<open>String conversion in \<open>a + '/'\<close>: a string is itself.\<close>

definition to_str :: "extern \<Rightarrow> jsval \<Rightarrow> string" where
  "to_str X v = (case v of JStr s \<Rightarrow> s | _ \<Rightarrow> toString_nonstring X v)"

text \<open>\<open>_.includes(collection, value)\<close>; on an array it is membership by SameValueZero.\<close>

definition js_includes :: "extern \<Rightarrow> jsval \<Rightarrow> jsval \<Rightarrow> bool" where
  "js_includes X coll v =
     (case coll of
        JArr xs \<Rightarrow> list_ex (sameValueZero v) xs
      | _ \<Rightarrow> includes_nonarray X coll v)"

text \<open>
  \<open>_.assign(object, source)\<close>: every own property of the source, in order, is written
  into the object; a key the object has keeps its place, a new key goes to the end.
\<close>

definition assign :: "object \<Rightarrow> object \<Rightarrow> object" where
  "assign obj source = fold (\<lambda>(k, v). AList.update k v) source obj"

text \<open>
  The operation methods of sharp are chainable: a call that sharp accepts sets its
  options on the instance it is made on and returns that same instance (\<open>return this\<close>).
  Only \<open>clone()\<close> gives a new instance, and the source never calls it. So
  \<open>master.background(...)\<close> changes \<open>master\<close>, and \<open>$query\<close> is \<open>master\<close> under another
  name throughout. The state of an instance is kept as the sequence of accepted calls
  made on it so far, which fixes its options. A call that sharp rejects throws instead;
  \<open>run_calls\<close> below asks \<open>sharp_throws\<close> before each call.
\<close>

definition invoke :: "call list \<Rightarrow> call \<Rightarrow> call list" where
  "invoke q c = q @ [c]"

section \<open>Serror (lines 34-39)\<close>

definition Serror :: "jsval \<Rightarrow> jsval \<Rightarrow> jsval \<Rightarrow> jsval" where
  "Serror message code field =
     JObj [(''name'', JStr ''Error''),
           (''message'', js_or message (JStr ''error occurred.'')),
           (''code'', js_or code JNull),
           (''field'', js_or field JNull)]"

section \<open>Configuration (lines 56-143)\<close>

definition defaultOptions :: object where
  "defaultOptions =
     [(''field'', JStr ''file''),
      (''location'', JStr ''/var/www/uploads/''),
      (''dirFormat'', JStr ''yyyy/mmm/d''),
      (''fileNameLen'', num 50),
      (''maxFileSize'', JStr ''10mb''),
      (''accept'', JArr [JStr ''png'', JStr ''jpeg'', JStr ''jpg'']),
      (''output'', JStr ''jpg''),
      (''sizes'', JArr [JObj [(''suffix'', JStr ''lg''), (''width'', num 500), (''height'', num 500)]]),
      (''resize'', JBool True),
      (''crop'', JBool False),
      (''background'', JObj [(''r'', num 200), (''g'', num 200), (''b'', num 200), (''a'', num 1)]),
      (''embed'', JBool False),
      (''max'', JBool False),
      (''min'', JBool False),
      (''withoutEnlargement'', JBool False),
      (''ignoreAspectRatio'', JBool False),
      (''extract'', JBool False),
      (''trim'', JBool False),
      (''flatten'', JBool False),
      (''extend'', JBool False),
      (''negate'', JBool False),
      (''rotate'', JBool False),
      (''flip'', JBool False),
      (''flop'', JBool False),
      (''blur'', JBool False),
      (''sharpen'', JBool False),
      (''gamma'', JBool False),
      (''grayscale'', JBool False),
      (''greyscale'', JBool False),
      (''normalize'', JBool False),
      (''normalise'', JBool False),
      (''progressive'', JBool False),
      (''quality'', JBool False)]"

text \<open>
  \<open>options = _.assign(defaultOptions, options)\<close> (line 143). The argument is the list of
  own properties of the caller's object, empty when the caller passes none.
\<close>

definition sharper_options :: "object \<Rightarrow> object" where
  "sharper_options options = assign defaultOptions options"

text \<open>
  The table of defaults as the specification words it: the named literals, \<open>resize\<close>
  true, every other transform toggle false, and nothing for any other key.
\<close>

definition other_toggles :: "string list" where
  "other_toggles =
     [''crop'', ''embed'', ''max'', ''min'', ''withoutEnlargement'', ''ignoreAspectRatio'',
      ''extract'', ''trim'', ''flatten'', ''extend'', ''negate'', ''rotate'', ''flip'', ''flop'',
      ''blur'', ''sharpen'', ''gamma'', ''grayscale'', ''greyscale'', ''normalize'', ''normalise'',
      ''progressive'', ''quality'']"

definition documented_default :: "string \<Rightarrow> jsval" where
  "documented_default k =
     (if k = ''field'' then JStr ''file''
      else if k = ''location'' then JStr ''/var/www/uploads/''
      else if k = ''dirFormat'' then JStr ''yyyy/mmm/d''
      else if k = ''fileNameLen'' then num 50
      else if k = ''maxFileSize'' then JStr ''10mb''
      else if k = ''accept'' then JArr [JStr ''png'', JStr ''jpeg'', JStr ''jpg'']
      else if k = ''output'' then JStr ''jpg''
      else if k = ''sizes'' then
        JArr [JObj [(''suffix'', JStr ''lg''), (''width'', num 500), (''height'', num 500)]]
      else if k = ''resize'' then JBool True
      else if k = ''background'' then
        JObj [(''r'', num 200), (''g'', num 200), (''b'', num 200), (''a'', num 1)]
      else if k \<in> set other_toggles then JBool False
      else JUndefined)"

section \<open>The middleware (lines 151-409)\<close>

text \<open>The uploaded file as \<open>fileFilter\<close> sees it, and the upload state of line 201.\<close>

record upload_file =
  mimetype :: jsval

record state =
  dir :: string
  destination :: string
  filename :: string

text \<open>
  The actions the middleware starts outside itself, in the order it starts them: the
  write of the master by multer's disk storage, the opening of the master by sharp, each
  \<open>toFile\<close> with the path and the state of the instance at the call, \<open>sharp.cache(false)\<close>
  and the \<open>fs.unlink\<close> of the master.
\<close>

datatype event =
    StoreMaster multer_options
  | OpenMaster string
  | ToFile string "call list"
  | CacheOff
  | Unlink string

text \<open>
  What the caller sees: the final callback of the waterfall (lines 396-407) calls
  \<open>next(err)\<close>, or sets \<open>res.sharper\<close> and calls \<open>next()\<close>; or an exception leaves the
  middleware, which has no \<open>try\<close>, and \<open>next\<close> is never called.
\<close>

datatype outcome =
    Next_error jsval
  | Next_ok state
  | Uncaught jsval

text \<open>How a stage ends: it calls its callback, with an error or the state, or it throws.\<close>

datatype completion =
    Called_back "jsval + state"
  | Threw jsval

subsection \<open>masterUpload (lines 164-207)\<close>

definition fileFilter :: "extern \<Rightarrow> object \<Rightarrow> upload_file \<Rightarrow> jsval + bool" where
  "fileFilter X options file =
     (let fileExt = mime_extension X (mimetype file) in
      if js_includes X (property options ''accept'') fileExt then Inr True
      else Inl (Serror (JStr ''file not acceptable'') (JStr ''FILE_TYPE_UNSUPPORTED'') fileExt))"

text \<open>
  multer on a request that carries one file in the configured field: the filter decides
  first; an accepted file is streamed to \<open>destination/filename\<close>, which may fail.
\<close>

definition masterUploader ::
  "extern \<Rightarrow> object \<Rightarrow> multer_options \<Rightarrow> upload_file \<Rightarrow> event list \<times> jsval option" where
  "masterUploader X options mo file =
     (case fileFilter X options file of
        Inl err \<Rightarrow> ([], Some err)
      | Inr accepted \<Rightarrow>
          if accepted then ([StoreMaster mo], upload_io X mo) else ([], None))"

definition masterUpload ::
  "extern \<Rightarrow> object \<Rightarrow> upload_file \<Rightarrow> event list \<times> (jsval + state)" where
  "masterUpload X options file =
     (let dir = dateformat X (property options ''dirFormat'');
          destination = to_str X (property options ''location'') @ dir;
          filename = randomstring_generate X (property options ''fileNameLen'');
          mo = \<lparr>mo_destination = destination, mo_filename = filename,
                mo_fileSize = bytes X (property options ''maxFileSize''), mo_files = 1,
                mo_field = property options ''field''\<rparr>
      in case masterUploader X options mo file of
           (evs, Some err) \<Rightarrow> (evs, Inl err)
         | (evs, None) \<Rightarrow>
             (evs, Inr \<lparr>dir = dir, destination = destination, filename = filename\<rparr>))"

subsection \<open>processImages (lines 216-366)\<close>

text \<open>
  The body of the iteratee of \<open>async.each\<close> (lines 223-356) on one size entry, read as
  straight-line code: the calls it makes on the shared \<open>master\<close> instance, appended to
  the state of the instance, and the path it passes to \<open>toFile\<close>. This is what happens
  when no call throws; no condition of the chain reads the instance, so when a call
  does throw, the calls made are those before it (\<open>run_iteratee\<close> below).
\<close>

definition iteratee ::
  "extern \<Rightarrow> object \<Rightarrow> state \<Rightarrow> object \<Rightarrow> call list \<Rightarrow> call list \<times> string" where
  "iteratee X options st entry master =
     (let query = invoke master (Background (property options ''background''));
          query = (if property options ''resize'' = JBool True
                   then invoke query (Resize (property entry ''width'') (property entry ''height''))
                   else query);
          query = (if property options ''crop'' \<noteq> JBool False
                      \<and> has_gravity X (property options ''crop'')
                   then invoke query (Crop (gravity_at X (property options ''crop'')))
                   else query);
          query = (if property options ''embed'' = JBool True
                   then invoke query Embed else query);
          query = (if property options ''max'' = JBool True
                   then invoke query Max else query);
          query = (if property options ''min'' = JBool True
                   then invoke query Min else query);
          query = (if property options ''withoutEnlargement'' = JBool True
                   then invoke query WithoutEnlargement else query);
          query = (if property options ''ignoreAspectRatio'' = JBool True
                   then invoke query IgnoreAspectRatio else query);
          query = (if property options ''extract'' \<noteq> JBool False
                   then invoke query (Extract (property options ''extract'')) else query);
          query = (if property options ''trim'' \<noteq> JBool False
                   then invoke query (Trim (toInteger X (property options ''trim'')))
                   else query);
          query = (if property options ''flatten'' = JBool True
                   then invoke query Flatten else query);
          query = (if property options ''extend'' \<noteq> JBool False
                   then invoke query (Extend (property options ''extend'')) else query);
          query = (if property options ''negate'' = JBool True
                   then invoke query Negate else query);
          query = (if js_includes X (JArr [num 0, num 90, num 180, num 270])
                        (property options ''rotate'')
                   then invoke query (Rotate (property options ''rotate'')) else query);
          query = (if property options ''flip'' = JBool True
                   then invoke query Flip else query);
          query = (if property options ''flop'' = JBool True
                   then invoke query Flop else query);
          query = (if property options ''blur'' \<noteq> JBool False
                   then (if property options ''blur'' = JBool True
                         then invoke query (Blur None)
                         else invoke query (Blur (Some (toNumber X (property options ''blur'')))))
                   else query);
          query = (if property options ''sharpen'' = JBool True
                   then invoke query Sharpen else query);
          query = (if property options ''gamma'' \<noteq> JBool False
                   then (if property options ''gamma'' = JBool True
                         then invoke query (Gamma None)
                         else invoke query (Gamma (Some (toNumber X (property options ''gamma'')))))
                   else query);
          query = (if property options ''grayscale'' = JBool True
                      \<or> property options ''greyscale'' = JBool True
                   then invoke query Grayscale else query);
          query = (if property options ''normalize'' = JBool True
                      \<or> property options ''normalise'' = JBool True
                   then invoke query Normalize else query);
          query = (if property options ''quality'' \<noteq> JBool False
                   then invoke query (Quality (toInteger X (property options ''quality'')))
                   else query);
          query = (if property options ''progressive'' = JBool True
                   then invoke query Progressive else query)
      in (query,
          destination st @ ''/'' @ filename st @ ''.'' @ to_str X (property entry ''suffix'')
            @ ''.'' @ to_str X (property options ''output'')))"

text \<open>
  The fields of a size entry. The iteratee reads \<open>width\<close>, \<open>height\<close> and \<open>suffix\<close> only; a
  number, a boolean, a string or an array has none of them and reads as \<open>undefined\<close>.
  On \<open>null\<close> and \<open>undefined\<close> the read itself throws, which \<open>run_iteratee\<close> decides before
  it uses the fields.
\<close>

fun entry_fields :: "jsval \<Rightarrow> object" where
  "entry_fields (JObj kvs) = kvs"
| "entry_fields v = []"

text \<open>
  What \<open>async.each\<close> visits in \<open>options.sizes\<close>: the elements of an array, the values
  of an object, the characters of a string, and nothing in any other value.
\<close>

definition size_entries :: "jsval \<Rightarrow> jsval list" where
  "size_entries v =
     (case v of
        JArr xs \<Rightarrow> xs
      | JObj kvs \<Rightarrow> map snd kvs
      | JStr s \<Rightarrow> map (\<lambda>c. JStr [c]) s
      | _ \<Rightarrow> [])"

text \<open>
  The loop of \<open>async.each\<close> over entries that are objects, in a run where nothing
  throws: the iteratee is called on every entry in turn, before any \<open>toFile\<close> completes.
  \<open>master\<close> is opened once (line 218) and every iteratee calls its methods on that one
  instance, so an entry's calls are made on the state the entries before it left.
  \<open>toFile\<close> reads the options of the instance when it is called; the result is the list
  of \<open>toFile\<close> calls, each with its path and the state of the instance at the call.
\<close>

fun async_each ::
  "extern \<Rightarrow> object \<Rightarrow> state \<Rightarrow> object list \<Rightarrow> call list \<Rightarrow> (string \<times> call list) list" where
  "async_each X options st [] master = []"
| "async_each X options st (entry # entries) master =
     (case iteratee X options st entry master of
        (query, path) \<Rightarrow> (path, query) # async_each X options st entries query)"

subsection \<open>Exceptions in the iteratee\<close>

text \<open>The name of the sharp method behind a call.\<close>

fun call_name :: "call \<Rightarrow> string" where
  "call_name (Background v) = ''background''"
| "call_name (Resize w h) = ''resize''"
| "call_name (Crop g) = ''crop''"
| "call_name Embed = ''embed''"
| "call_name Max = ''max''"
| "call_name Min = ''min''"
| "call_name WithoutEnlargement = ''withoutEnlargement''"
| "call_name IgnoreAspectRatio = ''ignoreAspectRatio''"
| "call_name (Extract r) = ''extract''"
| "call_name (Trim t) = ''trim''"
| "call_name Flatten = ''flatten''"
| "call_name (Extend m) = ''extend''"
| "call_name Negate = ''negate''"
| "call_name (Rotate a) = ''rotate''"
| "call_name Flip = ''flip''"
| "call_name Flop = ''flop''"
| "call_name (Blur s) = ''blur''"
| "call_name Sharpen = ''sharpen''"
| "call_name (Gamma g) = ''gamma''"
| "call_name Grayscale = ''grayscale''"
| "call_name Normalize = ''normalize''"
| "call_name (Quality q) = ''quality''"
| "call_name Progressive = ''progressive''"

text \<open>The \<open>TypeError\<close> of reading a field of \<open>null\<close> or \<open>undefined\<close>.\<close>

definition TypeError :: jsval where
  "TypeError = JObj [(''name'', JStr ''TypeError'')]"

text \<open>
  Calls made one after the other on an instance: the first one sharp rejects throws,
  and the calls after it are not made.
\<close>

fun run_calls :: "extern \<Rightarrow> call list \<Rightarrow> call list \<Rightarrow> call list \<times> jsval option" where
  "run_calls X query [] = (query, None)"
| "run_calls X query (c # cs) =
     (case sharp_throws X c of
        Some exn \<Rightarrow> (query, Some exn)
      | None \<Rightarrow> run_calls X (invoke query c) cs)"

text \<open>
  One call of the iteratee (lines 223-356), exceptions counted in. It makes the calls
  of the chain in order until one throws. The entry is read in the arguments of
  \<open>resize\<close> (line 229) and in the path (line 348): when the entry is \<open>null\<close> or
  \<open>undefined\<close>, the first of these reads that is reached throws a \<open>TypeError\<close>. The
  result is the state of \<open>master\<close> afterwards with the exception (\<open>Inl\<close>) or the path
  handed to \<open>toFile\<close> (\<open>Inr\<close>).
\<close>

definition run_iteratee ::
  "extern \<Rightarrow> object \<Rightarrow> state \<Rightarrow> jsval \<Rightarrow> call list \<Rightarrow> call list \<times> (jsval + string)" where
  "run_iteratee X options st entry master =
     (case iteratee X options st (entry_fields entry) [] of
        (calls, path) \<Rightarrow>
          if entry = JNull \<or> entry = JUndefined then
            (case run_calls X master (takeWhile (\<lambda>c. call_name c \<noteq> ''resize'') calls) of
               (query, Some exn) \<Rightarrow> (query, Inl exn)
             | (query, None) \<Rightarrow> (query, Inl TypeError))
          else
            (case run_calls X master calls of
               (query, Some exn) \<Rightarrow> (query, Inl exn)
             | (query, None) \<Rightarrow> (query, Inr path)))"

text \<open>
  The loop of \<open>async.each\<close> (lines 221-365), exceptions counted in: the \<open>toFile\<close> calls
  it starts, and the exception that leaves it, if any. An exception thrown by the
  iteratee on one entry leaves the loop: the entries after it are not visited.
\<close>

fun async_each_run ::
  "extern \<Rightarrow> object \<Rightarrow> state \<Rightarrow> jsval list \<Rightarrow> call list
     \<Rightarrow> (string \<times> call list) list \<times> jsval option" where
  "async_each_run X options st [] master = ([], None)"
| "async_each_run X options st (entry # entries) master =
     (case run_iteratee X options st entry master of
        (query, Inl exn) \<Rightarrow> ([], Some exn)
      | (query, Inr path) \<Rightarrow>
          (case async_each_run X options st entries query of
             (writes, thrown) \<Rightarrow> ((path, query) # writes, thrown)))"

text \<open>
  The error \<open>async.each\<close> hands to its callback: that of the failing \<open>toFile\<close> which
  completes first (at equal times, the one started first), with its completion time.
\<close>

fun first_error :: "extern \<Rightarrow> (string \<times> call list) list \<Rightarrow> (nat \<times> jsval) option" where
  "first_error X [] = None"
| "first_error X ((path, query) # ws) =
     (case toFile_io X path query of
        None \<Rightarrow> first_error X ws
      | Some err \<Rightarrow>
          (case first_error X ws of
             None \<Rightarrow> Some (toFile_done X path, err)
           | Some (t, err') \<Rightarrow>
               if toFile_done X path \<le> t then Some (toFile_done X path, err)
               else Some (t, err')))"

definition processImages ::
  "extern \<Rightarrow> object \<Rightarrow> state \<Rightarrow> event list \<times> completion" where
  "processImages X options st =
     (let master = [] in
      case async_each_run X options st (size_entries (property options ''sizes'')) master of
        (writes, thrown) \<Rightarrow>
          (OpenMaster (destination st @ ''/'' @ filename st)
             # map (\<lambda>(path, query). ToFile path query) writes,
           case thrown of
             Some exn \<Rightarrow> Threw exn
           | None \<Rightarrow>
               (case first_error X writes of
                  Some (t, err) \<Rightarrow> Called_back (Inl err)
                | None \<Rightarrow> Called_back (Inr st))))"

subsection \<open>deleteMaster (lines 375-386)\<close>

definition deleteMaster :: "extern \<Rightarrow> state \<Rightarrow> event list \<times> (jsval + state)" where
  "deleteMaster X st =
     ([CacheOff, Unlink (destination st @ ''/'' @ filename st)],
      case unlink_io X (destination st @ ''/'' @ filename st) of
        Some err \<Rightarrow> Inl err
      | None \<Rightarrow> Inr st)"

subsection \<open>The waterfall and its final callback (lines 157-408)\<close>

definition middleware :: "extern \<Rightarrow> object \<Rightarrow> upload_file \<Rightarrow> event list \<times> outcome" where
  "middleware X options file =
     (case masterUpload X options file of
        (ev1, Inl err) \<Rightarrow> (ev1, Next_error err)
      | (ev1, Inr st1) \<Rightarrow>
          (case processImages X options st1 of
             (ev2, Threw exn) \<Rightarrow> (ev1 @ ev2, Uncaught exn)
           | (ev2, Called_back (Inl err)) \<Rightarrow> (ev1 @ ev2, Next_error err)
           | (ev2, Called_back (Inr st2)) \<Rightarrow>
               (case deleteMaster X st2 of
                  (ev3, Inl err) \<Rightarrow> (ev1 @ ev2 @ ev3, Next_error err)
                | (ev3, Inr st3) \<Rightarrow> (ev1 @ ev2 @ ev3, Next_ok st3))))"

definition sharper :: "extern \<Rightarrow> object \<Rightarrow> upload_file \<Rightarrow> event list \<times> outcome" where
  "sharper X options file = middleware X (sharper_options options) file"

section \<open>The derivation pipeline as the specification words it\<close>

text \<open>
  Section 4.3 of the specification: the transform toggles in their fixed order, each
  with whether it is out of its skip state and the operation it then applies.
\<close>

definition toggle_table :: "extern \<Rightarrow> object \<Rightarrow> object \<Rightarrow> (bool \<times> call) list" where
  "toggle_table X options entry =
     [(True, Background (property options ''background'')),
      (property options ''resize'' = JBool True,
         Resize (property entry ''width'') (property entry ''height'')),
      (property options ''crop'' \<noteq> JBool False \<and> has_gravity X (property options ''crop''),
         Crop (gravity_at X (property options ''crop''))),
      (property options ''embed'' = JBool True, Embed),
      (property options ''max'' = JBool True, Max),
      (property options ''min'' = JBool True, Min),
      (property options ''withoutEnlargement'' = JBool True, WithoutEnlargement),
      (property options ''ignoreAspectRatio'' = JBool True, IgnoreAspectRatio),
      (property options ''extract'' \<noteq> JBool False, Extract (property options ''extract'')),
      (property options ''trim'' \<noteq> JBool False, Trim (toInteger X (property options ''trim''))),
      (property options ''flatten'' = JBool True, Flatten),
      (property options ''extend'' \<noteq> JBool False, Extend (property options ''extend'')),
      (property options ''negate'' = JBool True, Negate),
      (property options ''rotate'' \<in> {num 0, num 90, num 180, num 270},
         Rotate (property options ''rotate'')),
      (property options ''flip'' = JBool True, Flip),
      (property options ''flop'' = JBool True, Flop),
      (property options ''blur'' \<noteq> JBool False,
         Blur (if property options ''blur'' = JBool True then None
               else Some (toNumber X (property options ''blur'')))),
      (property options ''sharpen'' = JBool True, Sharpen),
      (property options ''gamma'' \<noteq> JBool False,
         Gamma (if property options ''gamma'' = JBool True then None
                else Some (toNumber X (property options ''gamma'')))),
      (property options ''grayscale'' = JBool True \<or> property options ''greyscale'' = JBool True,
         Grayscale),
      (property options ''normalize'' = JBool True \<or> property options ''normalise'' = JBool True,
         Normalize),
      (property options ''quality'' \<noteq> JBool False,
         Quality (toInteger X (property options ''quality''))),
      (property options ''progressive'' = JBool True, Progressive)]"

definition applied_toggles :: "extern \<Rightarrow> object \<Rightarrow> object \<Rightarrow> call list" where
  "applied_toggles X options entry = map snd (filter fst (toggle_table X options entry))"

definition variant_path :: "extern \<Rightarrow> object \<Rightarrow> state \<Rightarrow> object \<Rightarrow> string" where
  "variant_path X options st entry =
     destination st @ ''/'' @ filename st @ ''.'' @ to_str X (property entry ''suffix'')
       @ ''.'' @ to_str X (property options ''output'')"

section \<open>Vocabulary of the properties\<close>

text \<open>The order of the transforms as section 4.3 of the specification lists it.\<close>

definition documented_order :: "string list" where
  "documented_order =
     [''background'', ''resize'', ''crop'', ''embed'', ''max'', ''min'', ''withoutEnlargement'',
      ''ignoreAspectRatio'', ''extract'', ''trim'', ''flatten'', ''extend'', ''negate'', ''rotate'',
      ''flip'', ''flop'', ''blur'', ''sharpen'', ''gamma'', ''grayscale'', ''normalize'', ''quality'',
      ''progressive'']"

text \<open>The toggles the source gates with \<open>=== true\<close>.\<close>

definition boolean_toggles :: "string list" where
  "boolean_toggles =
     [''embed'', ''max'', ''min'', ''withoutEnlargement'', ''ignoreAspectRatio'', ''flatten'',
      ''negate'', ''flip'', ''flop'', ''sharpen'', ''progressive'', ''resize'']"

text \<open>
  The width and height a sharp instance holds when \<open>toFile\<close> is called on it: each
  \<open>resize\<close> call overwrites the two options, so they are the arguments of the last
  \<open>resize\<close> call made on the instance, if any.
\<close>

fun effective_resize :: "call list \<Rightarrow> (jsval \<times> jsval) option" where
  "effective_resize [] = None"
| "effective_resize (c # cs) =
     (case effective_resize cs of
        Some wh \<Rightarrow> Some wh
      | None \<Rightarrow> (case c of Resize w h \<Rightarrow> Some (w, h) | _ \<Rightarrow> None))"

text \<open>
  Independence of the per-size derivations, as section 4.3 of the specification puts it
  (the master handle shared read-only, no size's pipeline touching the state another one
  sees): the state of the instance at each \<open>toFile\<close> is the one the entry's own calls
  build on the freshly opened master.
\<close>

definition derivations_independent :: "extern \<Rightarrow> object \<Rightarrow> state \<Rightarrow> object list \<Rightarrow> bool" where
  "derivations_independent X options st entries =
     (map snd (async_each X options st entries [])
        = map (\<lambda>entry. fst (iteratee X options st entry [])) entries)"

text \<open>The stage an action belongs to: upload 1, variant derivation 2, cleanup 3.\<close>

fun stage :: "event \<Rightarrow> nat" where
  "stage (StoreMaster mo) = 1"
| "stage (OpenMaster path) = 2"
| "stage (ToFile path q) = 2"
| "stage CacheOff = 3"
| "stage (Unlink path) = 3"

text \<open>
  The iteratee throws on an entry: the entry is \<open>null\<close> or \<open>undefined\<close>, or sharp
  rejects one of the calls of the chain.
\<close>

definition entry_throws :: "extern \<Rightarrow> object \<Rightarrow> state \<Rightarrow> jsval \<Rightarrow> bool" where
  "entry_throws X options st entry =
     (entry = JNull \<or> entry = JUndefined
      \<or> list_ex (\<lambda>c. sharp_throws X c \<noteq> None)
           (fst (iteratee X options st (entry_fields entry) [])))"

text \<open>
  The \<open>toFile\<close> calls of the configured sizes, written out entry by entry: entry \<open>i\<close> gets
  the path built from its own suffix, and the instance then holds the calls of the
  entries \<open>0\<close> to \<open>i\<close>.
\<close>

definition variant_writes ::
  "extern \<Rightarrow> object \<Rightarrow> state \<Rightarrow> jsval list \<Rightarrow> (string \<times> call list) list" where
  "variant_writes X options st sizes =
     map (\<lambda>i. (snd (iteratee X options st (entry_fields (sizes ! i)) []),
               concat (map (\<lambda>entry. fst (iteratee X options st (entry_fields entry) []))
                         (take (Suc i) sizes))))
       [0..<length sizes]"

text \<open>
  The toggles by name, in the order of section 4.3 of the specification, each with the
  kind of its gate: none, \<open>=== true\<close>, \<open>!== false\<close>, one of the four right angles, a
  gravity sharp knows, or \<open>=== true\<close> under either of two spellings.
\<close>

datatype gate = Always | Is_true | Not_false | Right_angle | Known_gravity | Either_true string

definition toggle_rows :: "(string \<times> gate) list" where
  "toggle_rows =
     [(''background'', Always), (''resize'', Is_true), (''crop'', Known_gravity),
      (''embed'', Is_true), (''max'', Is_true), (''min'', Is_true),
      (''withoutEnlargement'', Is_true), (''ignoreAspectRatio'', Is_true),
      (''extract'', Not_false), (''trim'', Not_false), (''flatten'', Is_true),
      (''extend'', Not_false), (''negate'', Is_true), (''rotate'', Right_angle),
      (''flip'', Is_true), (''flop'', Is_true), (''blur'', Not_false), (''sharpen'', Is_true),
      (''gamma'', Not_false), (''grayscale'', Either_true ''greyscale''),
      (''normalize'', Either_true ''normalise''), (''quality'', Not_false),
      (''progressive'', Is_true)]"

text \<open>A toggle is out of its skip state.\<close>

fun out_of_skip_state :: "extern \<Rightarrow> object \<Rightarrow> string \<times> gate \<Rightarrow> bool" where
  "out_of_skip_state X options (name, Always) = True"
| "out_of_skip_state X options (name, Is_true) = (property options name = JBool True)"
| "out_of_skip_state X options (name, Not_false) = (property options name \<noteq> JBool False)"
| "out_of_skip_state X options (name, Right_angle) =
     (property options name \<in> {num 0, num 90, num 180, num 270})"
| "out_of_skip_state X options (name, Known_gravity) =
     (property options name \<noteq> JBool False \<and> has_gravity X (property options name))"
| "out_of_skip_state X options (name, Either_true alias) =
     (property options name = JBool True \<or> property options alias = JBool True)"

text \<open>The operation of a toggle: the sharp call of that name, with its arguments.\<close>

definition operation :: "extern \<Rightarrow> object \<Rightarrow> object \<Rightarrow> string \<Rightarrow> call" where
  "operation X options entry name =
     (if name = ''background'' then Background (property options ''background'')
      else if name = ''resize'' then Resize (property entry ''width'') (property entry ''height'')
      else if name = ''crop'' then Crop (gravity_at X (property options ''crop''))
      else if name = ''embed'' then Embed
      else if name = ''max'' then Max
      else if name = ''min'' then Min
      else if name = ''withoutEnlargement'' then WithoutEnlargement
      else if name = ''ignoreAspectRatio'' then IgnoreAspectRatio
      else if name = ''extract'' then Extract (property options ''extract'')
      else if name = ''trim'' then Trim (toInteger X (property options ''trim''))
      else if name = ''flatten'' then Flatten
      else if name = ''extend'' then Extend (property options ''extend'')
      else if name = ''negate'' then Negate
      else if name = ''rotate'' then Rotate (property options ''rotate'')
      else if name = ''flip'' then Flip
      else if name = ''flop'' then Flop
      else if name = ''blur'' then
        Blur (if property options ''blur'' = JBool True then None
              else Some (toNumber X (property options ''blur'')))
      else if name = ''sharpen'' then Sharpen
      else if name = ''gamma'' then
        Gamma (if property options ''gamma'' = JBool True then None
               else Some (toNumber X (property options ''gamma'')))
      else if name = ''grayscale'' then Grayscale
      else if name = ''normalize'' then Normalize
      else if name = ''quality'' then Quality (toInteger X (property options ''quality''))
      else Progressive)"

text \<open>The \<open>toFile\<close> calls among the actions of a run: path and state of the instance.\<close>

fun toFile_calls :: "event list \<Rightarrow> (string \<times> call list) list" where
  "toFile_calls [] = []"
| "toFile_calls (ToFile path q # es) = (path, q) # toFile_calls es"
| "toFile_calls (e # es) = toFile_calls es"

text \<open>
  The error surface of section 6 read as a promise about every rejected upload: the
  error handed to the caller has the message, the code and, in \<open>field\<close>, the extension
  that \<open>mime.extension\<close> gave for the declared media type.
\<close>

definition error_carries_extension :: "extern \<Rightarrow> object \<Rightarrow> upload_file \<Rightarrow> bool" where
  "error_carries_extension X options file =
     (case snd (middleware X options file) of
        Next_error (JObj err) \<Rightarrow>
          property err ''message'' = JStr ''file not acceptable''
          \<and> property err ''code'' = JStr ''FILE_TYPE_UNSUPPORTED''
          \<and> property err ''field'' = mime_extension X (mimetype file)
      | _ \<Rightarrow> False)"

section \<open>A sample environment\<close>

text \<open>
  One concrete choice of the libraries and of the outcomes of input and output, in which
  sharp accepts every call and every action succeeds; the worked examples below run the
  middleware in it. \<open>strict_extern\<close> differs in one point: as sharp does, it rejects a
  quality of \<open>0\<close>, which is outside 1 to 100.
\<close>

definition sample_extern :: extern where
  "sample_extern =
     \<lparr>mime_extension =
        (\<lambda>v. if v = JStr ''image/png'' then JStr ''png''
             else if v = JStr ''image/gif'' then JStr ''gif'' else JBool False),
      dateformat = (\<lambda>f. ''2017/Jan/5''),
      randomstring_generate = (\<lambda>n. ''Xy7''),
      bytes = (\<lambda>v. num 10485760),
      has_gravity = (\<lambda>v. v = JStr ''north'' \<or> v = JStr ''centre''),
      gravity_at = (\<lambda>v. if v = JStr ''north'' then num 1 else num 0),
      toInteger = (\<lambda>v. v),
      toNumber = (\<lambda>v. v),
      toString_nonstring = (\<lambda>v. ''undefined''),
      includes_nonarray = (\<lambda>c v. False),
      sharp_throws = (\<lambda>c. None),
      upload_io = (\<lambda>mo. None),
      toFile_io = (\<lambda>path q. None),
      toFile_done = (\<lambda>path. 0),
      unlink_io = (\<lambda>path. None)\<rparr>"

definition sample_state :: state where
  "sample_state = \<lparr>dir = ''2017/Jan/5'', destination = ''/var/www/uploads/2017/Jan/5'', filename = ''Xy7''\<rparr>"

definition sample_entry :: object where
  "sample_entry = [(''suffix'', JStr ''lg''), (''width'', num 500), (''height'', num 500)]"

definition sample_file :: upload_file where
  "sample_file = \<lparr>mimetype = JStr ''image/png''\<rparr>"

definition sample_small :: object where
  "sample_small = [(''suffix'', JStr ''sm''), (''width'', num 100), (''height'', num 100)]"

definition sample_two_sizes :: object where
  "sample_two_sizes =
     AList.update ''sizes'' (JArr [JObj sample_small, JObj sample_entry]) defaultOptions"

definition strict_extern :: extern where
  "strict_extern =
     sample_extern\<lparr>sharp_throws :=
       (\<lambda>c. if c = Quality (num 0) then Some (JStr ''Invalid quality (1 to 100) 0'') else None)\<rparr>"

definition sample_quality_zero :: object where
  "sample_quality_zero =
     AList.update ''progressive'' (JBool True) (AList.update ''quality'' (num 0) defaultOptions)"

section \<open>Helper facts\<close>

lemma map_of_fold_update:
  assumes "distinct (map fst src)"
  shows "map_of (fold (\<lambda>(k, v). AList.update k v) src obj) k =
         (case map_of src k of Some v \<Rightarrow> Some v | None \<Rightarrow> map_of obj k)"
  using assms
proof (induction src arbitrary: obj)
  case Nil
  show ?case by simp
next
  case (Cons p src)
  obtain a b where p: "p = (a, b)" by (cases p)
  from Cons.prems have d: "distinct (map fst src)" and a: "a \<notin> fst ` set src"
    by (simp_all add: p)
  from a have none: "map_of src a = None"
    by (simp add: map_of_eq_None_iff)
  show ?case
    using Cons.IH [OF d, of "AList.update a b obj"] none
    by (simp add: p update_conv' split: option.splits)
qed

lemma map_of_assign:
  assumes "distinct (map fst src)"
  shows "map_of (assign obj src) k =
         (case map_of src k of Some v \<Rightarrow> Some v | None \<Rightarrow> map_of obj k)"
  unfolding assign_def by (rule map_of_fold_update [OF assms])

lemma property_assign:
  assumes "distinct (map fst src)"
  shows "property (assign obj src) k = (case map_of src k of Some v \<Rightarrow> v | None \<Rightarrow> property obj k)"
  by (simp add: property_def map_of_assign [OF assms] split: option.splits)

lemma property_defaultOptions: "property defaultOptions k = documented_default k"
  unfolding property_def defaultOptions_def documented_default_def other_toggles_def
  by simp

lemma property_Nil: "property [] k = JUndefined"
  by (simp add: property_def)

lemma property_Cons: "property ((k, v) # obj) k' = (if k' = k then v else property obj k')"
  by (simp add: property_def)

lemma property_update:
  "property (AList.update k v obj) k' = (if k' = k then v else property obj k')"
  by (simp add: property_def update_conv')

lemma when_append: "(if c then invoke q op else q) = q @ (if c then [op] else [])"
  by (simp add: invoke_def)

lemma when2_append:
  "(if c then (if d then invoke q a else invoke q b) else q) = q @ (if c then [if d then a else b] else [])"
  by (simp add: invoke_def)

lemma filter_table_Cons:
  "map snd (filter fst ((b, c) # xs)) = (if b then [c] else []) @ map snd (filter fst xs)"
  by simp

lemma rotate_includes:
  "js_includes X (JArr [num 0, num 90, num 180, num 270]) v = (v \<in> {num 0, num 90, num 180, num 270})"
  by (auto simp: js_includes_def sameValueZero_def)

lemma iteratee_eq:
  "iteratee X options st entry master =
     (master @ applied_toggles X options entry, variant_path X options st entry)"
  unfolding iteratee_def when2_append when_append rotate_includes
  unfolding Let_def applied_toggles_def toggle_table_def variant_path_def filter_table_Cons
  by (simp only: invoke_def append_assoc if_True filter.simps list.map append_Nil2 append_Nil append_Cons if_distrib [of Blur] if_distrib [of Gamma])

lemma applied_toggles_unfold:
  "applied_toggles X options entry =
     [Background (property options ''background'')]
     @ (if property options ''resize'' = JBool True
        then [Resize (property entry ''width'') (property entry ''height'')] else [])
     @ (if property options ''crop'' \<noteq> JBool False \<and> has_gravity X (property options ''crop'')
        then [Crop (gravity_at X (property options ''crop''))] else [])
     @ (if property options ''embed'' = JBool True then [Embed] else [])
     @ (if property options ''max'' = JBool True then [Max] else [])
     @ (if property options ''min'' = JBool True then [Min] else [])
     @ (if property options ''withoutEnlargement'' = JBool True then [WithoutEnlargement] else [])
     @ (if property options ''ignoreAspectRatio'' = JBool True then [IgnoreAspectRatio] else [])
     @ (if property options ''extract'' \<noteq> JBool False
        then [Extract (property options ''extract'')] else [])
     @ (if property options ''trim'' \<noteq> JBool False
        then [Trim (toInteger X (property options ''trim''))] else [])
     @ (if property options ''flatten'' = JBool True then [Flatten] else [])
     @ (if property options ''extend'' \<noteq> JBool False
        then [Extend (property options ''extend'')] else [])
     @ (if property options ''negate'' = JBool True then [Negate] else [])
     @ (if property options ''rotate'' \<in> {num 0, num 90, num 180, num 270}
        then [Rotate (property options ''rotate'')] else [])
     @ (if property options ''flip'' = JBool True then [Flip] else [])
     @ (if property options ''flop'' = JBool True then [Flop] else [])
     @ (if property options ''blur'' \<noteq> JBool False
        then [Blur (if property options ''blur'' = JBool True then None
                    else Some (toNumber X (property options ''blur'')))] else [])
     @ (if property options ''sharpen'' = JBool True then [Sharpen] else [])
     @ (if property options ''gamma'' \<noteq> JBool False
        then [Gamma (if property options ''gamma'' = JBool True then None
                     else Some (toNumber X (property options ''gamma'')))] else [])
     @ (if property options ''grayscale'' = JBool True \<or> property options ''greyscale'' = JBool True
        then [Grayscale] else [])
     @ (if property options ''normalize'' = JBool True \<or> property options ''normalise'' = JBool True
        then [Normalize] else [])
     @ (if property options ''quality'' \<noteq> JBool False
        then [Quality (toInteger X (property options ''quality''))] else [])
     @ (if property options ''progressive'' = JBool True then [Progressive] else [])"
  unfolding applied_toggles_def toggle_table_def filter_table_Cons
  by (simp only: if_True filter.simps list.map append_Nil2)

lemma mem_opt: "(c \<in> set (if b then [x] else [])) = (b \<and> c = x)"
  by (cases b) auto

lemma mem_applied:
  "(Embed \<in> set (applied_toggles X options entry)) = (property options ''embed'' = JBool True)"
  "(Max \<in> set (applied_toggles X options entry)) = (property options ''max'' = JBool True)"
  "(Min \<in> set (applied_toggles X options entry)) = (property options ''min'' = JBool True)"
  "(WithoutEnlargement \<in> set (applied_toggles X options entry)) = (property options ''withoutEnlargement'' = JBool True)"
  "(IgnoreAspectRatio \<in> set (applied_toggles X options entry)) = (property options ''ignoreAspectRatio'' = JBool True)"
  "(Flatten \<in> set (applied_toggles X options entry)) = (property options ''flatten'' = JBool True)"
  "(Negate \<in> set (applied_toggles X options entry)) = (property options ''negate'' = JBool True)"
  "(Flip \<in> set (applied_toggles X options entry)) = (property options ''flip'' = JBool True)"
  "(Flop \<in> set (applied_toggles X options entry)) = (property options ''flop'' = JBool True)"
  "(Sharpen \<in> set (applied_toggles X options entry)) = (property options ''sharpen'' = JBool True)"
  "(Progressive \<in> set (applied_toggles X options entry)) = (property options ''progressive'' = JBool True)"
  "(Resize w h \<in> set (applied_toggles X options entry)) =
     (property options ''resize'' = JBool True \<and> w = property entry ''width'' \<and> h = property entry ''height'')"
  "(Rotate a \<in> set (applied_toggles X options entry)) =
     (property options ''rotate'' \<in> {num 0, num 90, num 180, num 270} \<and> a = property options ''rotate'')"
  "(Crop g \<in> set (applied_toggles X options entry)) =
     (property options ''crop'' \<noteq> JBool False \<and> has_gravity X (property options ''crop'')
      \<and> g = gravity_at X (property options ''crop''))"
  unfolding applied_toggles_unfold set_append Un_iff mem_opt
  by (simp_all split del: if_split)



lemma table_names:
  "map (\<lambda>(b, c). call_name c) (toggle_table X options entry) = documented_order"
  by (simp add: toggle_table_def documented_order_def)

lemma skip_cases:
  assumes "v \<noteq> JBool True"
  shows "toggle_table X (AList.update ''embed'' v options) entry = toggle_table X (AList.update ''embed'' (JBool False) options) entry"
    and "toggle_table X (AList.update ''max'' v options) entry = toggle_table X (AList.update ''max'' (JBool False) options) entry"
    and "toggle_table X (AList.update ''min'' v options) entry = toggle_table X (AList.update ''min'' (JBool False) options) entry"
    and "toggle_table X (AList.update ''withoutEnlargement'' v options) entry = toggle_table X (AList.update ''withoutEnlargement'' (JBool False) options) entry"
    and "toggle_table X (AList.update ''ignoreAspectRatio'' v options) entry = toggle_table X (AList.update ''ignoreAspectRatio'' (JBool False) options) entry"
    and "toggle_table X (AList.update ''flatten'' v options) entry = toggle_table X (AList.update ''flatten'' (JBool False) options) entry"
    and "toggle_table X (AList.update ''negate'' v options) entry = toggle_table X (AList.update ''negate'' (JBool False) options) entry"
    and "toggle_table X (AList.update ''flip'' v options) entry = toggle_table X (AList.update ''flip'' (JBool False) options) entry"
    and "toggle_table X (AList.update ''flop'' v options) entry = toggle_table X (AList.update ''flop'' (JBool False) options) entry"
    and "toggle_table X (AList.update ''sharpen'' v options) entry = toggle_table X (AList.update ''sharpen'' (JBool False) options) entry"
    and "toggle_table X (AList.update ''progressive'' v options) entry = toggle_table X (AList.update ''progressive'' (JBool False) options) entry"
    and "toggle_table X (AList.update ''resize'' v options) entry = toggle_table X (AList.update ''resize'' (JBool False) options) entry"
  using assms by (simp_all add: toggle_table_def property_update)

lemma skip_bool:
  assumes "t \<in> set boolean_toggles" "v \<noteq> JBool True"
  shows "toggle_table X (AList.update t v options) entry = toggle_table X (AList.update t (JBool False) options) entry"
proof -
  from assms(1) have "t = ''embed'' \<or> t = ''max'' \<or> t = ''min'' \<or> t = ''withoutEnlargement'' \<or> t = ''ignoreAspectRatio'' \<or> t = ''flatten'' \<or> t = ''negate'' \<or> t = ''flip'' \<or> t = ''flop'' \<or> t = ''sharpen'' \<or> t = ''progressive'' \<or> t = ''resize''"
    by (simp add: boolean_toggles_def)
  then show ?thesis
    by (elim disjE) (simp_all only: skip_cases [OF assms(2)])
qed

lemma iteratee_update_eq:
  assumes "applied_toggles X (AList.update t v options) entry = applied_toggles X (AList.update t v' options) entry"
    and "t \<noteq> ''output''"
  shows "iteratee X (AList.update t v options) st entry master = iteratee X (AList.update t v' options) st entry master"
  using assms by (simp add: iteratee_eq variant_path_def property_update)

lemma skip_bool_iteratee:
  assumes "t \<in> set boolean_toggles" "v \<noteq> JBool True"
  shows "iteratee X (AList.update t v options) st entry master
           = iteratee X (AList.update t (JBool False) options) st entry master"
proof (rule iteratee_update_eq)
  show "applied_toggles X (AList.update t v options) entry
          = applied_toggles X (AList.update t (JBool False) options) entry"
    by (simp only: applied_toggles_def skip_bool [OF assms])
  from assms(1) show "t \<noteq> ''output''"
    by (auto simp: boolean_toggles_def)
qed




lemma run_calls_takeWhile:
  "fst (run_calls X q cs) = q @ takeWhile (\<lambda>c. sharp_throws X c = None) cs"
  by (induction cs arbitrary: q) (auto simp: invoke_def split: option.splits)

lemma run_calls_None:
  "(snd (run_calls X q cs) = None) = list_all (\<lambda>c. sharp_throws X c = None) cs"
  by (induction cs arbitrary: q) (auto split: option.splits)

lemma run_calls_accepted:
  assumes "list_all (\<lambda>c. sharp_throws X c = None) cs"
  shows "run_calls X q cs = (q @ cs, None)"
proof -
  from assms have "takeWhile (\<lambda>c. sharp_throws X c = None) cs = cs"
    by (simp add: list_all_iff)
  with run_calls_takeWhile [of X q cs] run_calls_None [of X q cs] assms show ?thesis
    by (cases "run_calls X q cs") simp
qed

lemma entry_throws_iff:
  "entry_throws X options st entry =
     (entry = JNull \<or> entry = JUndefined
      \<or> \<not> list_all (\<lambda>c. sharp_throws X c = None) (applied_toggles X options (entry_fields entry)))"
  by (simp add: entry_throws_def iteratee_eq list_all_iff list_ex_iff)

lemma run_iteratee_quiet:
  assumes "\<not> entry_throws X options st entry"
  shows "run_iteratee X options st entry master
           = (master @ applied_toggles X options (entry_fields entry),
              Inr (variant_path X options st (entry_fields entry)))"
  using assms
  by (simp add: entry_throws_iff run_iteratee_def iteratee_eq run_calls_accepted)

lemma run_iteratee_throws:
  assumes "entry_throws X options st entry"
  shows "\<exists>exn. snd (run_iteratee X options st entry master) = Inl exn"
proof (cases "entry = JNull \<or> entry = JUndefined")
  case True
  then show ?thesis
    by (auto simp: run_iteratee_def iteratee_eq split: prod.splits option.splits)
next
  case False
  with assms have "\<not> list_all (\<lambda>c. sharp_throws X c = None) (applied_toggles X options (entry_fields entry))"
    by (simp add: entry_throws_iff)
  then have "snd (run_calls X master (applied_toggles X options (entry_fields entry))) \<noteq> None"
    by (simp add: run_calls_None)
  with False show ?thesis
    by (auto simp: run_iteratee_def iteratee_eq split: prod.splits option.splits)
qed


lemma async_each_run_thrown:
  "(snd (async_each_run X options st entries master) = None)
     = list_all (\<lambda>entry. \<not> entry_throws X options st entry) entries"
proof (induction entries arbitrary: master)
  case Nil
  show ?case by simp
next
  case (Cons e es)
  show ?case
  proof (cases "entry_throws X options st e")
    case True
    from run_iteratee_throws [OF True, of master] show ?thesis
      using True by (auto split: prod.splits sum.splits)
  next
    case False
    let ?m = "master @ applied_toggles X options (entry_fields e)"
    from run_iteratee_quiet [OF False, of master] Cons.IH [of ?m] False show ?thesis
      by (cases "async_each_run X options st es ?m") simp
  qed
qed

lemma async_each_run_quiet:
  assumes "list_all (\<lambda>entry. \<not> entry_throws X options st entry) entries"
  shows "async_each_run X options st entries master
           = (map (\<lambda>i. (variant_path X options st (entry_fields (entries ! i)),
                        master @ concat (map (\<lambda>entry. applied_toggles X options (entry_fields entry))
                                           (take (Suc i) entries))))
                [0..<length entries], None)"
  using assms
proof (induction entries arbitrary: master)
  case Nil
  show ?case by simp
next
  case (Cons e es)
  from Cons.prems have e: "\<not> entry_throws X options st e"
    and es: "list_all (\<lambda>entry. \<not> entry_throws X options st entry) es"
    by simp_all
  show ?case
    by (simp add: run_iteratee_quiet [OF e] Cons.IH [OF es] map_upt_Suc del: upt_Suc)
qed

lemma variant_writes_eq:
  "variant_writes X options st sizes
     = map (\<lambda>i. (variant_path X options st (entry_fields (sizes ! i)),
                  concat (map (\<lambda>entry. applied_toggles X options (entry_fields entry))
                            (take (Suc i) sizes))))
         [0..<length sizes]"
  by (simp add: variant_writes_def iteratee_eq)

lemma async_each_run_writes:
  assumes "list_all (\<lambda>entry. \<not> entry_throws X options st entry) entries"
  shows "async_each_run X options st entries [] = (variant_writes X options st entries, None)"
  by (simp add: async_each_run_quiet [OF assms] variant_writes_eq)

lemma async_each_run_objects:
  assumes "list_all (\<lambda>entry. \<not> entry_throws X options st (JObj entry)) entries"
  shows "async_each_run X options st (map JObj entries) master
           = (async_each X options st entries master, None)"
  using assms
proof (induction entries arbitrary: master)
  case Nil
  show ?case by simp
next
  case (Cons e es)
  from Cons.prems have e: "\<not> entry_throws X options st (JObj e)"
    and es: "list_all (\<lambda>entry. \<not> entry_throws X options st (JObj entry)) es"
    by simp_all
  show ?case
    by (simp add: run_iteratee_quiet [OF e] Cons.IH [OF es] iteratee_eq)
qed

lemma first_error_None:
  "(first_error X ws = None) = list_all (\<lambda>(path, q). toFile_io X path q = None) ws"
  by (induction ws) (auto split: option.splits if_splits)

lemma masterUpload_events:
  "fst (masterUpload X options file) = [] \<or> (\<exists>mo. fst (masterUpload X options file) = [StoreMaster mo])"
  by (auto simp: masterUpload_def masterUploader_def Let_def split: sum.splits option.splits)

lemma deleteMaster_events:
  "fst (deleteMaster X st) = [CacheOff, Unlink (destination st @ ''/'' @ filename st)]"
  by (simp add: deleteMaster_def)

lemma deleteMaster_result:
  "snd (deleteMaster X st)
     = (case unlink_io X (destination st @ ''/'' @ filename st) of Some err \<Rightarrow> Inl err | None \<Rightarrow> Inr st)"
  by (simp add: deleteMaster_def)

lemma stage_masterUpload: "e \<in> set (fst (masterUpload X options file)) \<Longrightarrow> stage e = 1"
  using masterUpload_events [of X options "file"] by auto

lemma toFile_calls_append: "toFile_calls (xs @ ys) = toFile_calls xs @ toFile_calls ys"
  by (induction xs rule: toFile_calls.induct) simp_all

lemma toFile_calls_map: "toFile_calls (map (\<lambda>(path, q). ToFile path q) ws) = ws"
  by (induction ws) auto

lemma toFile_calls_masterUpload: "toFile_calls (fst (masterUpload X options file)) = []"
  using masterUpload_events [of X options "file"] by auto


lemma middleware_rejected:
  assumes "\<not> js_includes X (property options ''accept'') (mime_extension X (mimetype file))"
  shows "middleware X options file =
           ([], Next_error (Serror (JStr ''file not acceptable'') (JStr ''FILE_TYPE_UNSUPPORTED'')
                              (mime_extension X (mimetype file))))"
  using assms
  by (simp add: middleware_def masterUpload_def masterUploader_def fileFilter_def Let_def)

lemma effective_resize_append:
  "effective_resize (xs @ ys)
     = (case effective_resize ys of Some wh \<Rightarrow> Some wh | None \<Rightarrow> effective_resize xs)"
  by (induction xs) (auto split: option.splits)

lemma effective_resize_opt:
  "effective_resize (if b then [c] else [])
     = (case c of Resize w h \<Rightarrow> if b then Some (w, h) else None | _ \<Rightarrow> None)"
  by (cases b; cases c) simp_all

lemma effective_resize_applied:
  "effective_resize (applied_toggles X options entry)
     = (if property options ''resize'' = JBool True
        then Some (property entry ''width'', property entry ''height'') else None)"
  unfolding applied_toggles_unfold effective_resize_append effective_resize_opt
  by (simp split del: if_split) simp

lemma applied_toggles_nonempty: "applied_toggles X options entry \<noteq> []"
  by (subst applied_toggles_unfold) (simp only: append_Cons list.distinct not_False_eq_True)

lemma async_each_two:
  "async_each X options st [a, b] []
     = [(variant_path X options st a, applied_toggles X options a),
        (variant_path X options st b, applied_toggles X options a @ applied_toggles X options b)]"
  by (simp add: iteratee_eq)

lemma async_each_paths:
  "map fst (async_each X options st entries master) = map (variant_path X options st) entries"
  by (induction entries arbitrary: master) (simp_all add: iteratee_eq)

lemma first_error_witness:
  "first_error X ws = Some (t, err) \<Longrightarrow>
     \<exists>path q. (path, q) \<in> set ws \<and> toFile_io X path q = Some err \<and> toFile_done X path = t"
proof (induction ws arbitrary: t err)
  case Nil
  then show ?case by simp
next
  case (Cons w ws)
  obtain path q where w: "w = (path, q)" by (cases w)
  show ?case
  proof (cases "toFile_io X path q")
    case None
    with Cons.prems w have "first_error X ws = Some (t, err)" by simp
    from Cons.IH [OF this] obtain p' q' where "(p', q') \<in> set ws"
      "toFile_io X p' q' = Some err" "toFile_done X p' = t" by blast
    then show ?thesis by (intro exI [of _ p'] exI [of _ q']) simp
  next
    case (Some e)
    show ?thesis
    proof (cases "first_error X ws")
      case None
      with Cons.prems w Some have "t = toFile_done X path" "err = e" by simp_all
      with w Some show ?thesis by (intro exI [of _ path] exI [of _ q]) simp
    next
      case inner: (Some te)
      obtain t' e' where te: "te = (t', e')" by (cases te)
      show ?thesis
      proof (cases "toFile_done X path \<le> t'")
        case True
        with Cons.prems w Some inner te have "t = toFile_done X path" "err = e" by simp_all
        with w Some show ?thesis by (intro exI [of _ path] exI [of _ q]) simp
      next
        case False
        with Cons.prems w Some inner te have eq: "t = t'" "err = e'" by simp_all
        from inner te eq have "first_error X ws = Some (t, err)" by simp
        from Cons.IH [OF this] obtain p' q' where "(p', q') \<in> set ws"
          "toFile_io X p' q' = Some err" "toFile_done X p' = t" by blast
        then show ?thesis by (intro exI [of _ p'] exI [of _ q']) simp
      qed
    qed
  qed
qed

lemma first_error_least:
  "first_error X ws = Some (t, err) \<Longrightarrow> (path, q) \<in> set ws \<Longrightarrow>
     toFile_io X path q = Some e \<Longrightarrow> t \<le> toFile_done X path"
proof (induction ws arbitrary: t err)
  case Nil
  then show ?case by simp
next
  case (Cons w ws)
  obtain p0 q0 where w: "w = (p0, q0)" by (cases w)
  show ?case
  proof (cases "toFile_io X p0 q0")
    case None
    with Cons.prems(1) w have fe: "first_error X ws = Some (t, err)" by simp
    from Cons.prems(2,3) None w have "(path, q) \<in> set ws" by auto
    from Cons.IH [OF fe this Cons.prems(3)] show ?thesis .
  next
    case (Some e0)
    show ?thesis
    proof (cases "first_error X ws")
      case None
      with Cons.prems(1) w Some have t: "t = toFile_done X p0" by simp
      from None have all: "list_all (\<lambda>(path, q). toFile_io X path q = None) ws"
        by (simp add: first_error_None)
      have "(path, q) \<notin> set ws"
      proof
        assume "(path, q) \<in> set ws"
        with all have "toFile_io X path q = None" by (auto simp: list_all_iff)
        with Cons.prems(3) show False by simp
      qed
      with Cons.prems(2) w have "path = p0" by simp
      with t show ?thesis by simp
    next
      case inner: (Some te)
      obtain t' e' where te: "te = (t', e')" by (cases te)
      have fe: "first_error X ws = Some (t', e')" using inner te by simp
      have t_le: "t \<le> t'" "t \<le> toFile_done X p0"
        using Cons.prems(1) w Some inner te by (simp_all split: if_splits)
      show ?thesis
      proof (cases "(path, q) \<in> set ws")
        case True
        from Cons.IH [OF fe True Cons.prems(3)] t_le(1) show ?thesis by simp
      next
        case False
        with Cons.prems(2) w have "path = p0" by simp
        with t_le(2) show ?thesis by simp
      qed
    qed
  qed
qed

lemma processImages_events:
  "fst (processImages X options st)
     = OpenMaster (destination st @ ''/'' @ filename st)
       # map (\<lambda>(path, q). ToFile path q)
           (fst (async_each_run X options st (size_entries (property options ''sizes'')) []))"
  by (cases "async_each_run X options st (size_entries (property options ''sizes'')) []")
     (simp add: processImages_def Let_def)

lemma processImages_result:
  "snd (processImages X options st)
     = (case snd (async_each_run X options st (size_entries (property options ''sizes'')) []) of
          Some exn \<Rightarrow> Threw exn
        | None \<Rightarrow>
            (case first_error X
                    (fst (async_each_run X options st (size_entries (property options ''sizes'')) [])) of
               Some (t, err) \<Rightarrow> Called_back (Inl err)
             | None \<Rightarrow> Called_back (Inr st)))"
  by (cases "async_each_run X options st (size_entries (property options ''sizes'')) []")
     (simp add: processImages_def Let_def split: option.splits)

lemma stage_processImages: "e \<in> set (fst (processImages X options st)) \<Longrightarrow> stage e = 2"
  by (auto simp: processImages_events)

lemma middleware_unfold:
  "middleware X options file =
     (case snd (masterUpload X options file) of
        Inl err \<Rightarrow> (fst (masterUpload X options file), Next_error err)
      | Inr st1 \<Rightarrow>
          (case snd (processImages X options st1) of
             Threw exn \<Rightarrow>
               (fst (masterUpload X options file) @ fst (processImages X options st1), Uncaught exn)
           | Called_back (Inl err) \<Rightarrow>
               (fst (masterUpload X options file) @ fst (processImages X options st1), Next_error err)
           | Called_back (Inr st2) \<Rightarrow>
               (fst (masterUpload X options file) @ fst (processImages X options st1)
                  @ fst (deleteMaster X st2),
                case snd (deleteMaster X st2) of Inl err \<Rightarrow> Next_error err | Inr st3 \<Rightarrow> Next_ok st3)))"
  by (simp add: middleware_def split: prod.splits sum.splits completion.splits)

lemma sorted_stages:
  "sorted (map stage (fst (masterUpload X options file)))"
  "sorted (map stage (fst (masterUpload X options file) @ fst (processImages X options st)))"
  "sorted (map stage (fst (masterUpload X options file) @ fst (processImages X options st)
                        @ fst (deleteMaster X st')))"
proof -
  have 1: "map stage (fst (masterUpload X options file))
             = replicate (length (fst (masterUpload X options file))) 1"
    by (intro replicate_eqI) (auto dest: stage_masterUpload)
  have 2: "map stage (fst (processImages X options st))
             = replicate (length (fst (processImages X options st))) 2"
    by (intro replicate_eqI) (auto dest: stage_processImages)
  show "sorted (map stage (fst (masterUpload X options file)))"
    by (simp only: 1 sorted_replicate)
  show "sorted (map stage (fst (masterUpload X options file) @ fst (processImages X options st)))"
    by (simp only: map_append 1 2) (simp add: sorted_append)
  show "sorted (map stage (fst (masterUpload X options file) @ fst (processImages X options st)
                        @ fst (deleteMaster X st')))"
    by (simp only: map_append 1 2 deleteMaster_events) (simp add: sorted_append)
qed

lemma sorted_middleware: "sorted (map stage (fst (middleware X options file)))"
  using sorted_stages [of X options "file"]
  by (simp add: middleware_unfold split: sum.splits completion.splits)

lemma toFile_calls_middleware:
  assumes "snd (masterUpload X options file) = Inr st"
  shows "toFile_calls (fst (middleware X options file))
           = fst (async_each_run X options st (size_entries (property options ''sizes'')) [])"
  using assms
  by (simp add: middleware_unfold toFile_calls_append toFile_calls_masterUpload
      processImages_events toFile_calls_map deleteMaster_events
      split: sum.splits completion.splits)

lemma middleware_outcome:
  assumes "snd (masterUpload X options file) = Inr st"
  shows "snd (middleware X options file)
           = (case snd (async_each_run X options st (size_entries (property options ''sizes'')) []) of
                Some exn \<Rightarrow> Uncaught exn
              | None \<Rightarrow>
                  (case first_error X
                          (fst (async_each_run X options st
                                  (size_entries (property options ''sizes'')) [])) of
                     Some (t, err) \<Rightarrow> Next_error err
                   | None \<Rightarrow>
                       (case unlink_io X (destination st @ ''/'' @ filename st) of
                          Some err \<Rightarrow> Next_error err
                        | None \<Rightarrow> Next_ok st)))"
  by (simp add: middleware_unfold assms processImages_result deleteMaster_result
      split: option.splits)

lemma middleware_events:
  assumes "snd (masterUpload X options file) = Inr st"
  shows "fst (middleware X options file)
           = fst (masterUpload X options file)
             @ OpenMaster (destination st @ ''/'' @ filename st)
             # map (\<lambda>(path, q). ToFile path q)
                 (fst (async_each_run X options st (size_entries (property options ''sizes'')) []))
             @ (if snd (async_each_run X options st (size_entries (property options ''sizes'')) []) = None
                   \<and> list_all (\<lambda>(path, q). toFile_io X path q = None)
                        (fst (async_each_run X options st (size_entries (property options ''sizes'')) []))
                then [CacheOff, Unlink (destination st @ ''/'' @ filename st)] else [])"
  by (simp add: middleware_unfold assms processImages_result processImages_events
      deleteMaster_events first_error_None [symmetric] split: option.splits)

lemma middleware_upload_failed:
  assumes "snd (masterUpload X options file) = Inl err"
  shows "middleware X options file = (fst (masterUpload X options file), Next_error err)"
  by (simp add: middleware_unfold assms)

lemma middleware_Next_ok:
  "(snd (middleware X options file) = Next_ok s)
     = (snd (masterUpload X options file) = Inr s
        \<and> snd (async_each_run X options s (size_entries (property options ''sizes'')) []) = None
        \<and> list_all (\<lambda>(path, q). toFile_io X path q = None)
             (fst (async_each_run X options s (size_entries (property options ''sizes'')) []))
        \<and> unlink_io X (destination s @ ''/'' @ filename s) = None)"
proof (cases "snd (masterUpload X options file)")
  case (Inl err)
  then show ?thesis by (simp add: middleware_upload_failed)
next
  case (Inr st)
  show ?thesis
    by (auto simp: middleware_outcome [OF Inr] Inr first_error_None [symmetric]
        split: option.splits)
qed

lemma rows_filter_Cons:
  "map f (filter P (x # xs)) = (if P x then [f x] else []) @ map f (filter P xs)"
  by simp

lemma operation_simps:
  "operation X options entry ''background'' = Background (property options ''background'')"
  "operation X options entry ''resize'' = Resize (property entry ''width'') (property entry ''height'')"
  "operation X options entry ''crop'' = Crop (gravity_at X (property options ''crop''))"
  "operation X options entry ''embed'' = Embed"
  "operation X options entry ''max'' = Max"
  "operation X options entry ''min'' = Min"
  "operation X options entry ''withoutEnlargement'' = WithoutEnlargement"
  "operation X options entry ''ignoreAspectRatio'' = IgnoreAspectRatio"
  "operation X options entry ''extract'' = Extract (property options ''extract'')"
  "operation X options entry ''trim'' = Trim (toInteger X (property options ''trim''))"
  "operation X options entry ''flatten'' = Flatten"
  "operation X options entry ''extend'' = Extend (property options ''extend'')"
  "operation X options entry ''negate'' = Negate"
  "operation X options entry ''rotate'' = Rotate (property options ''rotate'')"
  "operation X options entry ''flip'' = Flip"
  "operation X options entry ''flop'' = Flop"
  "operation X options entry ''blur''
     = Blur (if property options ''blur'' = JBool True then None
             else Some (toNumber X (property options ''blur'')))"
  "operation X options entry ''sharpen'' = Sharpen"
  "operation X options entry ''gamma''
     = Gamma (if property options ''gamma'' = JBool True then None
              else Some (toNumber X (property options ''gamma'')))"
  "operation X options entry ''grayscale'' = Grayscale"
  "operation X options entry ''normalize'' = Normalize"
  "operation X options entry ''quality'' = Quality (toInteger X (property options ''quality''))"
  "operation X options entry ''progressive'' = Progressive"
  by (simp_all add: operation_def)

lemma applied_rows:
  "map (\<lambda>row. operation X options entry (fst row)) (filter (out_of_skip_state X options) toggle_rows)
     = applied_toggles X options entry"
  unfolding applied_toggles_unfold toggle_rows_def rows_filter_Cons
  by (simp only: out_of_skip_state.simps fst_conv operation_simps filter.simps list.map
      append_Nil2 if_True)

lemma rows_names:
  "map fst toggle_rows = documented_order"
  "list_all (\<lambda>name. call_name (operation X options entry name) = name) documented_order"
  by (simp_all add: toggle_rows_def documented_order_def operation_simps)

lemma applied_quality_zero:
  "applied_toggles X sample_quality_zero sample_entry
     = [Background (JObj [(''r'', num 200), (''g'', num 200), (''b'', num 200), (''a'', num 1)]), Resize (num 500) (num 500),
        Quality (toInteger X (num 0)), Progressive]"
  by (simp add: applied_toggles_unfold sample_quality_zero_def property_update
      property_defaultOptions documented_default_def other_toggles_def property_Cons property_Nil
      sample_entry_def)

lemma run_quality_zero:
  "run_iteratee strict_extern sample_quality_zero sample_state (JObj sample_entry) []
     = ([Background (JObj [(''r'', num 200), (''g'', num 200), (''b'', num 200), (''a'', num 1)]), Resize (num 500) (num 500)],
        Inl (JStr ''Invalid quality (1 to 100) 0''))"
  by (simp add: run_iteratee_def iteratee_eq applied_quality_zero strict_extern_def
      sample_extern_def invoke_def)

lemma size_entries_JArr: "size_entries (JArr sizes) = sizes"
  by (simp add: size_entries_def)

lemma masterUpload_sample:
  assumes "mime_extension X = mime_extension sample_extern"
    and "dateformat X = dateformat sample_extern"
    and "randomstring_generate X = randomstring_generate sample_extern"
    and "bytes X = bytes sample_extern"
    and "upload_io X = upload_io sample_extern"
    and "property options ''accept'' = property defaultOptions ''accept''"
    and "property options ''location'' = property defaultOptions ''location''"
    and "property options ''maxFileSize'' = property defaultOptions ''maxFileSize''"
    and "property options ''field'' = property defaultOptions ''field''"
  shows "masterUpload X options sample_file
     = ([StoreMaster \<lparr>mo_destination = ''/var/www/uploads/2017/Jan/5'', mo_filename = ''Xy7'',
                      mo_fileSize = num 10485760, mo_files = 1, mo_field = JStr ''file''\<rparr>],
        Inr sample_state)"
  by (simp add: masterUpload_def masterUploader_def fileFilter_def Let_def assms
      sample_extern_def sample_file_def sample_state_def js_includes_def sameValueZero_def
      to_str_def property_defaultOptions documented_default_def other_toggles_def)

lemma default_sizes: "property defaultOptions ''sizes'' = JArr [JObj sample_entry]"
  by (simp add: property_defaultOptions documented_default_def sample_entry_def)

lemma applied_default:
  "applied_toggles X defaultOptions sample_entry
     = [Background (JObj [(''r'', num 200), (''g'', num 200), (''b'', num 200), (''a'', num 1)]), Resize (num 500) (num 500)]"
  by (simp add: applied_toggles_unfold property_defaultOptions documented_default_def
      other_toggles_def property_Cons property_Nil sample_entry_def)

lemma variant_writes_one:
  "variant_writes X options st [entry]
     = [(variant_path X options st (entry_fields entry),
         applied_toggles X options (entry_fields entry))]"
  by (simp add: variant_writes_eq)

lemma path_default:
  assumes "toString_nonstring X = toString_nonstring sample_extern"
  shows "variant_path X defaultOptions sample_state sample_entry
           = ''/var/www/uploads/2017/Jan/5/Xy7.lg.jpg''"
  by (simp add: variant_path_def sample_state_def sample_entry_def property_Cons to_str_def
      property_defaultOptions documented_default_def)

section \<open>Configuration resolution\<close>

text \<open>
  Claim C3. Resolving the configuration is an overlay key by key: a key the caller's
  options object has takes the caller's value, a key it lacks takes the documented
  default, and the resolved value of a key is the same for any two caller objects that
  agree on that key, whatever their other keys hold. (A JavaScript object has each key
  once, which is the hypothesis.)
\<close>

theorem options_per_key_overlay:
  assumes "distinct (map fst options)"
  shows "property (sharper_options options) k
           = (case map_of options k of Some v \<Rightarrow> v | None \<Rightarrow> documented_default k)
     \<and> (\<forall>options'. distinct (map fst options') \<and> map_of options' k = map_of options k
            \<longrightarrow> property (sharper_options options') k = property (sharper_options options) k)"
  using assms
  by (simp add: sharper_options_def property_assign property_defaultOptions split: option.splits)

theorem options_per_key_overlay_witness:
  "property (sharper_options [(''output'', JStr ''png''), (''rotate'', num 90)]) ''output'' = JStr ''png''
   \<and> property (sharper_options [(''output'', JStr ''png''), (''rotate'', num 90)]) ''rotate'' = num 90
   \<and> property (sharper_options [(''output'', JStr ''png''), (''rotate'', num 90)]) ''resize'' = JBool True
   \<and> property (sharper_options [(''output'', JStr ''png''), (''rotate'', num 90)]) ''fileNameLen'' = num 50
   \<and> property (sharper_options [(''output'', JStr ''png''), (''rotate'', num 90)]) ''quality'' = JBool False
   \<and> property (sharper_options [(''rotate'', num 90)]) ''rotate''
       = property (sharper_options [(''output'', JStr ''png''), (''rotate'', num 90)]) ''rotate''"
proof -
  have d: "distinct (map fst [(''output'', JStr ''png''), (''rotate'', num 90)])"
    by simp
  have d': "distinct (map fst [(''rotate'', num 90)])
            \<and> map_of [(''rotate'', num 90)] ''rotate''
                = map_of [(''output'', JStr ''png''), (''rotate'', num 90)] ''rotate''"
    by simp
  note t = options_per_key_overlay [OF d]
  from t [of "''output''"] t [of "''rotate''"] t [of "''resize''"] t [of "''fileNameLen''"]
    t [of "''quality''"] d'
  show ?thesis
    by (simp add: documented_default_def other_toggles_def)
qed

section \<open>The calls of one size's derivation\<close>

text \<open>
  Claim C2, as amended. For every configuration and every size entry on which the
  iteratee does not throw (the entry is neither \<open>null\<close> nor \<open>undefined\<close>, and sharp
  accepts every call of the chain), the calls the iteratee makes on the query object
  are exactly the operations of the toggles that are out of their skip state, appended
  in the fixed order background, resize, crop, embed, max, min, withoutEnlargement,
  ignoreAspectRatio, extract, trim, flatten, extend, negate, rotate, flip, flop, blur,
  sharpen, gamma, grayscale, normalize, quality, progressive; then it hands \<open>toFile\<close>
  the entry's path. The rows of the table carry these names in this order, and the
  operation of a toggle is the sharp call of the toggle's name.
\<close>

theorem iteratee_applies_toggles_in_order:
  assumes "\<not> entry_throws X options st entry"
  shows "run_iteratee X options st entry master
           = (master @ map (\<lambda>row. operation X options (entry_fields entry) (fst row))
                         (filter (out_of_skip_state X options) toggle_rows),
              Inr (destination st @ ''/'' @ filename st @ ''.''
                     @ to_str X (property (entry_fields entry) ''suffix'') @ ''.''
                     @ to_str X (property options ''output'')))
     \<and> map fst toggle_rows = documented_order
     \<and> list_all (\<lambda>name. call_name (operation X options (entry_fields entry) name) = name)
          documented_order"
  by (simp only: run_iteratee_quiet [OF assms] applied_rows rows_names variant_path_def simp_thms)

text \<open>
  The claim as stated covers every configuration. With \<open>quality\<close> \<open>0\<close> and \<open>progressive\<close>
  \<open>true\<close>, sharp rejects \<open>quality(0)\<close> and throws; the iteratee has no \<open>try\<close>, so
  \<open>progressive\<close>, which is out of its skip state, is never applied.
\<close>

theorem rejected_call_stops_chain_counterexample:
  "run_iteratee strict_extern sample_quality_zero sample_state (JObj sample_entry) []
     = ([Background (JObj [(''r'', num 200), (''g'', num 200), (''b'', num 200), (''a'', num 1)]), Resize (num 500) (num 500)],
        Inl (JStr ''Invalid quality (1 to 100) 0''))
   \<and> (''progressive'', Is_true) \<in> set toggle_rows
   \<and> out_of_skip_state strict_extern sample_quality_zero (''progressive'', Is_true)
   \<and> Progressive
        \<notin> set (fst (run_iteratee strict_extern sample_quality_zero sample_state
                       (JObj sample_entry) []))"
proof -
  have 1: "(''progressive'', Is_true) \<in> set toggle_rows"
    by (simp add: toggle_rows_def)
  have 2: "out_of_skip_state strict_extern sample_quality_zero (''progressive'', Is_true)"
    by (simp add: sample_quality_zero_def property_update)
  have 3: "Progressive
        \<notin> set (fst (run_iteratee strict_extern sample_quality_zero sample_state
                       (JObj sample_entry) []))"
    by (simp add: run_quality_zero)
  from run_quality_zero 1 2 3 show ?thesis by blast
qed

theorem iteratee_applies_toggles_in_order_witness:
  "\<not> entry_throws sample_extern (AList.update ''rotate'' (num 90) defaultOptions) sample_state
        (JObj sample_entry)
   \<and> run_iteratee sample_extern (AList.update ''rotate'' (num 90) defaultOptions) sample_state
        (JObj sample_entry) []
       = ([Background (JObj [(''r'', num 200), (''g'', num 200), (''b'', num 200), (''a'', num 1)]), Resize (num 500) (num 500), Rotate (num 90)],
          Inr ''/var/www/uploads/2017/Jan/5/Xy7.lg.jpg'')"
proof -
  let ?O = "AList.update ''rotate'' (num 90) defaultOptions"
  have q: "\<not> entry_throws sample_extern ?O sample_state (JObj sample_entry)"
    by (simp add: entry_throws_def sample_extern_def list_ex_iff)
  have a: "applied_toggles sample_extern ?O sample_entry
             = [Background (JObj [(''r'', num 200), (''g'', num 200), (''b'', num 200), (''a'', num 1)]), Resize (num 500) (num 500), Rotate (num 90)]"
    by (simp add: applied_toggles_unfold property_update property_defaultOptions
        documented_default_def other_toggles_def property_Cons property_Nil sample_entry_def)
  have p: "to_str sample_extern (property sample_entry ''suffix'') = ''lg''"
    "to_str sample_extern (property ?O ''output'') = ''jpg''"
    by (simp_all add: to_str_def sample_entry_def property_Cons property_update
        property_defaultOptions documented_default_def)
  from iteratee_applies_toggles_in_order [OF q, of "[]"] q show ?thesis
    by (simp add: applied_rows a p sample_state_def)
qed





text \<open>
  Claim C10. Each of the toggles embed, max, min, withoutEnlargement, ignoreAspectRatio,
  flatten, negate, flip, flop, sharpen, progressive and resize is compared with \<open>=== true\<close>:
  with any other value, truthy ones such as \<open>1\<close> or a non-empty string included, the
  iteratee returns what it returns with the toggle \<open>false\<close>, and the toggle's call is made
  exactly when its value is \<open>true\<close>.
\<close>

theorem boolean_toggles_strictly_true:
  assumes "t \<in> set boolean_toggles" and "v \<noteq> JBool True"
  shows "iteratee X (AList.update t v options) st entry master
           = iteratee X (AList.update t (JBool False) options) st entry master
     \<and> (Embed \<in> set (fst (iteratee X options st entry []))) = (property options ''embed'' = JBool True)
     \<and> (Max \<in> set (fst (iteratee X options st entry []))) = (property options ''max'' = JBool True)
     \<and> (Min \<in> set (fst (iteratee X options st entry []))) = (property options ''min'' = JBool True)
     \<and> (WithoutEnlargement \<in> set (fst (iteratee X options st entry []))) = (property options ''withoutEnlargement'' = JBool True)
     \<and> (IgnoreAspectRatio \<in> set (fst (iteratee X options st entry []))) = (property options ''ignoreAspectRatio'' = JBool True)
     \<and> (Flatten \<in> set (fst (iteratee X options st entry []))) = (property options ''flatten'' = JBool True)
     \<and> (Negate \<in> set (fst (iteratee X options st entry []))) = (property options ''negate'' = JBool True)
     \<and> (Flip \<in> set (fst (iteratee X options st entry []))) = (property options ''flip'' = JBool True)
     \<and> (Flop \<in> set (fst (iteratee X options st entry []))) = (property options ''flop'' = JBool True)
     \<and> (Sharpen \<in> set (fst (iteratee X options st entry []))) = (property options ''sharpen'' = JBool True)
     \<and> (Progressive \<in> set (fst (iteratee X options st entry []))) = (property options ''progressive'' = JBool True)
     \<and> (Resize w h \<in> set (fst (iteratee X options st entry [])))
         = (property options ''resize'' = JBool True
            \<and> w = property entry ''width'' \<and> h = property entry ''height'')"
  by (rule conjI, rule skip_bool_iteratee [OF assms])
     (simp only: iteratee_eq fst_conv append_Nil mem_applied simp_thms)

theorem boolean_toggles_strictly_true_witness:
  "iteratee sample_extern (AList.update ''embed'' (num 1) defaultOptions) sample_state sample_entry []
     = iteratee sample_extern (AList.update ''embed'' (JBool False) defaultOptions) sample_state sample_entry []
   \<and> iteratee sample_extern (AList.update ''resize'' (JStr ''yes'') defaultOptions) sample_state sample_entry []
     = iteratee sample_extern (AList.update ''resize'' (JBool False) defaultOptions) sample_state sample_entry []
   \<and> fst (iteratee sample_extern (AList.update ''embed'' (num 1) defaultOptions) sample_state sample_entry [])
     = [Background (JObj [(''r'', num 200), (''g'', num 200), (''b'', num 200), (''a'', num 1)]), Resize (num 500) (num 500)]
   \<and> fst (iteratee sample_extern (AList.update ''embed'' (JBool True) defaultOptions) sample_state sample_entry [])
     = [Background (JObj [(''r'', num 200), (''g'', num 200), (''b'', num 200), (''a'', num 1)]), Resize (num 500) (num 500), Embed]"
proof -
  have e: "fst (iteratee sample_extern (AList.update ''embed'' (num 1) defaultOptions) sample_state sample_entry [])
     = [Background (JObj [(''r'', num 200), (''g'', num 200), (''b'', num 200), (''a'', num 1)]), Resize (num 500) (num 500)]"
    "fst (iteratee sample_extern (AList.update ''embed'' (JBool True) defaultOptions) sample_state sample_entry [])
     = [Background (JObj [(''r'', num 200), (''g'', num 200), (''b'', num 200), (''a'', num 1)]), Resize (num 500) (num 500), Embed]"
    by (simp_all add: iteratee_eq applied_toggles_unfold property_update property_defaultOptions
        documented_default_def other_toggles_def property_Cons property_Nil sample_entry_def)
  have 1: "''embed'' \<in> set boolean_toggles" "''resize'' \<in> set boolean_toggles"
    by (simp_all add: boolean_toggles_def)
  have 2: "num 1 \<noteq> JBool True" "JStr ''yes'' \<noteq> JBool True"
    by simp_all
  from boolean_toggles_strictly_true [OF 1(1) 2(1), of sample_extern defaultOptions sample_state sample_entry "[]"]
    boolean_toggles_strictly_true [OF 1(2) 2(2), of sample_extern defaultOptions sample_state sample_entry "[]"]
    e
  show ?thesis by blast
qed

section \<open>The upload stage\<close>

text \<open>
  Claim C4, as amended. For every upload that \<open>fileFilter\<close> rejects (the extension
  \<open>mime.extension\<close> gives for the declared media type is not in \<open>options.accept\<close>), the
  upload stage fails, nothing else is started, and the caller receives one error, with
  the message \<open>file not acceptable\<close> and the code \<open>FILE_TYPE_UNSUPPORTED\<close>. Its
  \<open>field\<close> is \<open>fileExt || null\<close>: the rejected extension when the media type has one,
  and \<open>null\<close> when \<open>mime.extension\<close> returns \<open>false\<close> for a media type it does not
  know.
\<close>

theorem unsupported_type_rejected:
  assumes "\<not> js_includes X (property options ''accept'') (mime_extension X (mimetype file))"
  shows "\<exists>err. middleware X options file = ([], Next_error (JObj err))
           \<and> property err ''message'' = JStr ''file not acceptable''
           \<and> property err ''code'' = JStr ''FILE_TYPE_UNSUPPORTED''
           \<and> property err ''field''
               = (if truthy (mime_extension X (mimetype file))
                  then mime_extension X (mimetype file) else JNull)"
  by (simp add: middleware_rejected [OF assms] Serror_def js_or_def property_Cons)

text \<open>
  The claim as stated promises the extension in \<open>field\<close> for every rejected upload. An
  upload declared as \<open>application/x-unknown\<close> is rejected with \<open>field\<close> \<open>null\<close>.
\<close>

theorem unknown_type_field_null_counterexample:
  "\<not> js_includes sample_extern (property defaultOptions ''accept'')
        (mime_extension sample_extern (mimetype \<lparr>mimetype = JStr ''application/x-unknown''\<rparr>))
   \<and> mime_extension sample_extern (mimetype \<lparr>mimetype = JStr ''application/x-unknown''\<rparr>) = JBool False
   \<and> middleware sample_extern defaultOptions \<lparr>mimetype = JStr ''application/x-unknown''\<rparr>
       = ([], Next_error (JObj [(''name'', JStr ''Error''), (''message'', JStr ''file not acceptable''),
                                (''code'', JStr ''FILE_TYPE_UNSUPPORTED''), (''field'', JNull)]))
   \<and> \<not> error_carries_extension sample_extern defaultOptions \<lparr>mimetype = JStr ''application/x-unknown''\<rparr>"
proof -
  have e: "mime_extension sample_extern (JStr ''application/x-unknown'') = JBool False"
    by (simp add: sample_extern_def)
  have r: "\<not> js_includes sample_extern (property defaultOptions ''accept'')
        (mime_extension sample_extern (mimetype \<lparr>mimetype = JStr ''application/x-unknown''\<rparr>))"
    by (simp add: e js_includes_def sameValueZero_def property_defaultOptions documented_default_def)
  have m: "middleware sample_extern defaultOptions \<lparr>mimetype = JStr ''application/x-unknown''\<rparr>
       = ([], Next_error (JObj [(''name'', JStr ''Error''), (''message'', JStr ''file not acceptable''),
                                (''code'', JStr ''FILE_TYPE_UNSUPPORTED''), (''field'', JNull)]))"
    by (simp add: middleware_rejected [OF r] e Serror_def js_or_def)
  have n: "\<not> error_carries_extension sample_extern defaultOptions \<lparr>mimetype = JStr ''application/x-unknown''\<rparr>"
    by (simp add: error_carries_extension_def m e property_Cons)
  from e r m n show ?thesis by simp
qed

theorem unsupported_type_rejected_witness:
  "\<not> js_includes sample_extern (property defaultOptions ''accept'')
        (mime_extension sample_extern (mimetype \<lparr>mimetype = JStr ''image/gif''\<rparr>))
   \<and> (\<exists>err. middleware sample_extern defaultOptions \<lparr>mimetype = JStr ''image/gif''\<rparr>
               = ([], Next_error (JObj err))
           \<and> property err ''message'' = JStr ''file not acceptable''
           \<and> property err ''code'' = JStr ''FILE_TYPE_UNSUPPORTED''
           \<and> property err ''field'' = JStr ''gif'')"
proof -
  have r: "\<not> js_includes sample_extern (property defaultOptions ''accept'')
        (mime_extension sample_extern (mimetype \<lparr>mimetype = JStr ''image/gif''\<rparr>))"
    by (simp add: js_includes_def sameValueZero_def sample_extern_def property_defaultOptions
        documented_default_def)
  have e: "mime_extension sample_extern (JStr ''image/gif'') = JStr ''gif''"
    by (simp add: sample_extern_def)
  from unsupported_type_rejected [OF r] r show ?thesis
    by (simp add: e)
qed

section \<open>The stages of the waterfall\<close>

text \<open>
  Claim C5, as amended. Take a run in which \<open>options.sizes\<close> is an array and no iteratee
  throws. Its actions are ordered by stage: upload, then variant derivation, then
  cleanup. Derivation starts exactly when the upload succeeded, and it then calls
  \<open>toFile\<close> once for every configured size, in order. Cleanup starts exactly when
  moreover every one of these writes succeeded, so no stage runs after a failing one
  and nothing is undone. The caller gets exactly one outcome: the upload state when all
  three stages succeed, otherwise the error of the first stage that failed, which for
  variant derivation is the error of the failing write that completes first.
\<close>

theorem stages_run_in_order:
  assumes sizes: "property options ''sizes'' = JArr sizes"
    and quiet: "\<And>st. list_all (\<lambda>entry. \<not> entry_throws X options st entry) sizes"
  shows "sorted (map stage (fst (middleware X options file)))
   \<and> ((\<exists>e \<in> set (fst (middleware X options file)). stage e = 2)
        = (\<exists>st. snd (masterUpload X options file) = Inr st))
   \<and> (\<forall>st. snd (masterUpload X options file) = Inr st \<longrightarrow>
         toFile_calls (fst (middleware X options file)) = variant_writes X options st sizes)
   \<and> ((\<exists>e \<in> set (fst (middleware X options file)). stage e = 3)
        = (\<exists>st. snd (masterUpload X options file) = Inr st
              \<and> list_all (\<lambda>(path, q). toFile_io X path q = None)
                   (variant_writes X options st sizes)))
   \<and> ((snd (middleware X options file) = Next_ok s)
        = (snd (masterUpload X options file) = Inr s
           \<and> list_all (\<lambda>(path, q). toFile_io X path q = None) (variant_writes X options s sizes)
           \<and> unlink_io X (destination s @ ''/'' @ filename s) = None))
   \<and> (\<forall>err. snd (masterUpload X options file) = Inl err \<longrightarrow>
         middleware X options file = (fst (masterUpload X options file), Next_error err))
   \<and> (\<forall>st. snd (masterUpload X options file) = Inr st
             \<and> \<not> list_all (\<lambda>(path, q). toFile_io X path q = None)
                    (variant_writes X options st sizes) \<longrightarrow>
         (\<exists>path q err. (path, q) \<in> set (variant_writes X options st sizes)
             \<and> toFile_io X path q = Some err
             \<and> snd (middleware X options file) = Next_error err
             \<and> (\<forall>(path', q') \<in> set (variant_writes X options st sizes).
                   toFile_io X path' q' \<noteq> None \<longrightarrow> toFile_done X path \<le> toFile_done X path')))
   \<and> (\<forall>st err. snd (masterUpload X options file) = Inr st
                \<and> list_all (\<lambda>(path, q). toFile_io X path q = None)
                     (variant_writes X options st sizes)
                \<and> unlink_io X (destination st @ ''/'' @ filename st) = Some err \<longrightarrow>
         snd (middleware X options file) = Next_error err)
   \<and> (\<forall>exn. snd (middleware X options file) \<noteq> Uncaught exn)"
proof (cases "snd (masterUpload X options file)")
  case (Inl err)
  have ev: "fst (middleware X options file) = fst (masterUpload X options file)"
    and out: "snd (middleware X options file) = Next_error err"
    by (simp_all add: middleware_upload_failed [OF Inl])
  have no2: "\<not> (\<exists>e \<in> set (fst (middleware X options file)). stage e = 2)"
    and no3: "\<not> (\<exists>e \<in> set (fst (middleware X options file)). stage e = 3)"
    by (auto simp: ev dest: stage_masterUpload)
  from Inl no2 no3 out sorted_middleware [of X options "file"] show ?thesis
    by (simp add: middleware_upload_failed [OF Inl])
next
  case (Inr st)
  let ?ws = "variant_writes X options st sizes"
  let ?ok = "list_all (\<lambda>(path, q). toFile_io X path q = None) ?ws"
  let ?p = "destination st @ ''/'' @ filename st"
  have run: "async_each_run X options st (size_entries (property options ''sizes'')) [] = (?ws, None)"
    by (simp only: sizes size_entries_JArr async_each_run_writes [OF quiet])
  have ev: "fst (middleware X options file)
              = fst (masterUpload X options file) @ OpenMaster ?p
                # map (\<lambda>(path, q). ToFile path q) ?ws
                @ (if ?ok then [CacheOff, Unlink ?p] else [])"
    by (simp add: middleware_events [OF Inr] run)
  have out: "snd (middleware X options file)
               = (case first_error X ?ws of
                    Some (t, err) \<Rightarrow> Next_error err
                  | None \<Rightarrow> (case unlink_io X ?p of
                                Some err \<Rightarrow> Next_error err | None \<Rightarrow> Next_ok st))"
    by (simp add: middleware_outcome [OF Inr] run)
  have c1: "sorted (map stage (fst (middleware X options file)))"
    by (rule sorted_middleware)
  have c2: "\<exists>e \<in> set (fst (middleware X options file)). stage e = 2"
    by (simp add: ev)
  have c3: "toFile_calls (fst (middleware X options file)) = ?ws"
    by (simp add: toFile_calls_middleware [OF Inr] run)
  have st12: "\<And>e. e \<in> set (fst (masterUpload X options file)) \<Longrightarrow> stage e \<noteq> 3"
    by (auto dest: stage_masterUpload)
  have c4: "(\<exists>e \<in> set (fst (middleware X options file)). stage e = 3) = ?ok"
  proof (cases ?ok)
    case True
    then have "CacheOff \<in> set (fst (middleware X options file))"
      by (simp add: ev)
    then have "\<exists>e \<in> set (fst (middleware X options file)). stage e = 3"
      by (intro bexI [of _ CacheOff]) simp_all
    with True show ?thesis by simp
  next
    case False
    then have "\<not> (\<exists>e \<in> set (fst (middleware X options file)). stage e = 3)"
      by (auto simp: ev dest: st12)
    with False show ?thesis by simp
  qed
  have c5: "(snd (middleware X options file) = Next_ok s)
              = (st = s \<and> list_all (\<lambda>(path, q). toFile_io X path q = None)
                            (variant_writes X options s sizes)
                 \<and> unlink_io X (destination s @ ''/'' @ filename s) = None)"
    by (auto simp: out first_error_None [symmetric] split: option.splits)
  have c7: "\<exists>path q err. (path, q) \<in> set ?ws \<and> toFile_io X path q = Some err
             \<and> snd (middleware X options file) = Next_error err
             \<and> (\<forall>(path', q') \<in> set ?ws.
                   toFile_io X path' q' \<noteq> None \<longrightarrow> toFile_done X path \<le> toFile_done X path')"
    if bad: "\<not> ?ok"
  proof -
    from bad obtain t err where fe: "first_error X ?ws = Some (t, err)"
      by (cases "first_error X ?ws") (auto simp: first_error_None)
    from first_error_witness [OF fe] obtain path q where w: "(path, q) \<in> set ?ws"
      "toFile_io X path q = Some err" "toFile_done X path = t" by blast
    have least: "\<forall>(path', q') \<in> set ?ws.
                   toFile_io X path' q' \<noteq> None \<longrightarrow> toFile_done X path \<le> toFile_done X path'"
      using first_error_least [OF fe] w(3) by auto
    have "snd (middleware X options file) = Next_error err"
      by (simp add: out fe)
    with w least show ?thesis by blast
  qed
  have c8: "snd (middleware X options file) = Next_error err"
    if "?ok" "unlink_io X ?p = Some err" for err
    using that by (simp add: out first_error_None [symmetric])
  have c9: "snd (middleware X options file) \<noteq> Uncaught exn" for exn
    by (simp add: out split: option.splits)
  from c1 c2 c3 c4 c5 c7 c8 c9 Inr show ?thesis
    by simp
qed

text \<open>
  Stated for every run, the claim promises the caller an outcome. With \<open>quality\<close> \<open>0\<close>
  the one iteratee throws on \<open>quality(0)\<close>: the master is stored and opened, then the
  exception leaves the middleware, \<open>next\<close> is never called and nothing is cleaned up.
\<close>

theorem exception_leaves_middleware_counterexample:
  "middleware strict_extern sample_quality_zero sample_file
     = ([StoreMaster \<lparr>mo_destination = ''/var/www/uploads/2017/Jan/5'', mo_filename = ''Xy7'',
                      mo_fileSize = num 10485760, mo_files = 1, mo_field = JStr ''file''\<rparr>,
         OpenMaster ''/var/www/uploads/2017/Jan/5/Xy7''],
        Uncaught (JStr ''Invalid quality (1 to 100) 0''))"
proof -
  have up: "masterUpload strict_extern sample_quality_zero sample_file
     = ([StoreMaster \<lparr>mo_destination = ''/var/www/uploads/2017/Jan/5'', mo_filename = ''Xy7'',
                      mo_fileSize = num 10485760, mo_files = 1, mo_field = JStr ''file''\<rparr>],
        Inr sample_state)"
    by (rule masterUpload_sample)
       (simp_all add: strict_extern_def sample_quality_zero_def property_update)
  have sz: "size_entries (property sample_quality_zero ''sizes'') = [JObj sample_entry]"
    by (simp add: sample_quality_zero_def property_update default_sizes size_entries_JArr)
  have run: "async_each_run strict_extern sample_quality_zero sample_state [JObj sample_entry] []
               = ([], Some (JStr ''Invalid quality (1 to 100) 0''))"
    by (simp add: run_quality_zero)
  have u: "snd (masterUpload strict_extern sample_quality_zero sample_file) = Inr sample_state"
    by (simp add: up)
  have "fst (middleware strict_extern sample_quality_zero sample_file)
          = [StoreMaster \<lparr>mo_destination = ''/var/www/uploads/2017/Jan/5'', mo_filename = ''Xy7'',
                      mo_fileSize = num 10485760, mo_files = 1, mo_field = JStr ''file''\<rparr>,
             OpenMaster ''/var/www/uploads/2017/Jan/5/Xy7'']"
    by (simp only: middleware_events [OF u] sz run) (simp add: up sample_state_def)
  moreover have "snd (middleware strict_extern sample_quality_zero sample_file)
          = Uncaught (JStr ''Invalid quality (1 to 100) 0'')"
    by (simp only: middleware_outcome [OF u] sz run) simp
  ultimately show ?thesis
    by (cases "middleware strict_extern sample_quality_zero sample_file") simp
qed

theorem stages_run_in_order_witness:
  "property defaultOptions ''sizes'' = JArr [JObj sample_entry]
   \<and> snd (middleware sample_extern defaultOptions sample_file) = Next_ok sample_state
   \<and> toFile_calls (fst (middleware sample_extern defaultOptions sample_file))
       = [(''/var/www/uploads/2017/Jan/5/Xy7.lg.jpg'',
           [Background (JObj [(''r'', num 200), (''g'', num 200), (''b'', num 200), (''a'', num 1)]), Resize (num 500) (num 500)])]
   \<and> (\<exists>e \<in> set (fst (middleware sample_extern defaultOptions sample_file)). stage e = 3)
   \<and> snd (middleware (sample_extern\<lparr>toFile_io := (\<lambda>path q. Some (JStr ''write failed''))\<rparr>)
             defaultOptions sample_file) = Next_error (JStr ''write failed'')
   \<and> \<not> (\<exists>e \<in> set (fst (middleware (sample_extern\<lparr>toFile_io := (\<lambda>path q. Some (JStr ''write failed''))\<rparr>)
                            defaultOptions sample_file)). stage e = 3)"
proof -
  let ?F = "sample_extern\<lparr>toFile_io := (\<lambda>path q. Some (JStr ''write failed''))\<rparr>"
  have quiet: "list_all (\<lambda>entry. \<not> entry_throws sample_extern defaultOptions st entry)
                 [JObj sample_entry]" for st
    by (simp add: entry_throws_def sample_extern_def list_ex_iff)
  have quietF: "list_all (\<lambda>entry. \<not> entry_throws ?F defaultOptions st entry)
                 [JObj sample_entry]" for st
    by (simp add: entry_throws_def sample_extern_def list_ex_iff)
  have up: "snd (masterUpload sample_extern defaultOptions sample_file) = Inr sample_state"
    by (simp add: masterUpload_sample)
  have upF: "snd (masterUpload ?F defaultOptions sample_file) = Inr sample_state"
    by (simp add: masterUpload_sample)
  have ws: "variant_writes sample_extern defaultOptions sample_state [JObj sample_entry]
              = [(''/var/www/uploads/2017/Jan/5/Xy7.lg.jpg'',
                  [Background (JObj [(''r'', num 200), (''g'', num 200), (''b'', num 200), (''a'', num 1)]), Resize (num 500) (num 500)])]"
    by (simp add: variant_writes_one applied_default path_default)
  have wsF: "variant_writes ?F defaultOptions sample_state [JObj sample_entry]
              = [(''/var/www/uploads/2017/Jan/5/Xy7.lg.jpg'',
                  [Background (JObj [(''r'', num 200), (''g'', num 200), (''b'', num 200), (''a'', num 1)]), Resize (num 500) (num 500)])]"
    by (simp add: variant_writes_one applied_default path_default)
  have ok: "list_all (\<lambda>(path, q). toFile_io sample_extern path q = None)
              (variant_writes sample_extern defaultOptions sample_state [JObj sample_entry])"
    by (simp add: ws) (simp add: sample_extern_def)
  have un: "unlink_io sample_extern (destination sample_state @ ''/'' @ filename sample_state) = None"
    by (simp add: sample_extern_def)
  have bad: "\<not> list_all (\<lambda>(path, q). toFile_io ?F path q = None)
              (variant_writes ?F defaultOptions sample_state [JObj sample_entry])"
    by (simp add: wsF)
  note good = stages_run_in_order [OF default_sizes quiet, of sample_file sample_state]
  note fail = stages_run_in_order [OF default_sizes quietF, of sample_file sample_state]
  from good up ok un
  have 1: "snd (middleware sample_extern defaultOptions sample_file) = Next_ok sample_state"
    by blast
  from good up
  have 2: "toFile_calls (fst (middleware sample_extern defaultOptions sample_file))
             = variant_writes sample_extern defaultOptions sample_state [JObj sample_entry]"
    by blast
  from good up ok
  have 3: "\<exists>e \<in> set (fst (middleware sample_extern defaultOptions sample_file)). stage e = 3"
    by blast
  from fail upF bad
  have "\<exists>path q err. toFile_io ?F path q = Some err
          \<and> snd (middleware ?F defaultOptions sample_file) = Next_error err"
    by blast
  then have 4: "snd (middleware ?F defaultOptions sample_file) = Next_error (JStr ''write failed'')"
    by auto
  from fail upF bad
  have 5: "\<not> (\<exists>e \<in> set (fst (middleware ?F defaultOptions sample_file)). stage e = 3)"
    by simp
  from default_sizes 1 2 3 4 5 show ?thesis
    by (simp only: ws) simp
qed

section \<open>Output paths\<close>



section \<open>Two sizes on one master instance\<close>

text \<open>
  Claim C1, as amended. For a configuration whose sizes are two entries with distinct
  string suffixes, a successful run calls \<open>toFile\<close> twice, on two distinct paths that
  carry the entries' own suffixes, and both writes succeed; at each call the width and
  height in force on the instance are the entry's own (none at all when \<open>resize\<close> is
  off). The handle is not read-only: every call goes to the one \<open>master\<close> instance, so
  the state the second \<open>toFile\<close> sees is the first entry's calls followed by the second
  entry's.
\<close>

theorem two_sizes_own_dimensions_on_shared_master:
  assumes sizes: "property options ''sizes'' = JArr [JObj a, JObj b]"
    and sa: "property a ''suffix'' = JStr sa"
    and sb: "property b ''suffix'' = JStr sb"
    and ne: "sa \<noteq> sb"
    and ok: "snd (middleware X options file) = Next_ok st"
  shows "\<exists>pa qa pb qb.
           toFile_calls (fst (middleware X options file)) = [(pa, qa), (pb, qb)]
           \<and> pa = destination st @ ''/'' @ filename st @ ''.'' @ sa @ ''.''
                    @ to_str X (property options ''output'')
           \<and> pb = destination st @ ''/'' @ filename st @ ''.'' @ sb @ ''.''
                    @ to_str X (property options ''output'')
           \<and> pa \<noteq> pb
           \<and> toFile_io X pa qa = None \<and> toFile_io X pb qb = None
           \<and> effective_resize qa
               = (if property options ''resize'' = JBool True
                  then Some (property a ''width'', property a ''height'') else None)
           \<and> effective_resize qb
               = (if property options ''resize'' = JBool True
                  then Some (property b ''width'', property b ''height'') else None)
           \<and> qa = fst (iteratee X options st a [])
           \<and> qb = qa @ fst (iteratee X options st b [])"
proof -
  let ?run = "async_each_run X options st (size_entries (property options ''sizes'')) []"
  from ok have up: "snd (masterUpload X options file) = Inr st"
    and quiet: "snd ?run = None"
    and dok: "list_all (\<lambda>(path, q). toFile_io X path q = None) (fst ?run)"
    by (simp_all add: middleware_Next_ok)
  have entries: "size_entries (property options ''sizes'') = map JObj [a, b]"
    by (simp add: sizes size_entries_def)
  from quiet have "list_all (\<lambda>entry. \<not> entry_throws X options st entry) (map JObj [a, b])"
    by (simp only: entries async_each_run_thrown)
  then have nt: "list_all (\<lambda>entry. \<not> entry_throws X options st (JObj entry)) [a, b]"
    by simp
  let ?pa = "variant_path X options st a" and ?pb = "variant_path X options st b"
  let ?qa = "applied_toggles X options a"
  let ?qb = "applied_toggles X options a @ applied_toggles X options b"
  have run: "?run = ([(?pa, ?qa), (?pb, ?qb)], None)"
    by (simp only: entries async_each_run_objects [OF nt] async_each_two)
  have calls: "toFile_calls (fst (middleware X options file)) = [(?pa, ?qa), (?pb, ?qb)]"
    by (simp only: toFile_calls_middleware [OF up] run fst_conv)
  from dok have io: "toFile_io X ?pa ?qa = None" "toFile_io X ?pb ?qb = None"
    by (simp_all add: run)
  have pa: "?pa = destination st @ ''/'' @ filename st @ ''.'' @ sa @ ''.''
                    @ to_str X (property options ''output'')"
    and pb: "?pb = destination st @ ''/'' @ filename st @ ''.'' @ sb @ ''.''
                    @ to_str X (property options ''output'')"
    by (simp_all add: variant_path_def sa sb to_str_def)
  from ne have diff: "?pa \<noteq> ?pb"
    by (simp add: pa pb)
  have ra: "effective_resize ?qa
               = (if property options ''resize'' = JBool True
                  then Some (property a ''width'', property a ''height'') else None)"
    by (rule effective_resize_applied)
  have rb: "effective_resize ?qb
               = (if property options ''resize'' = JBool True
                  then Some (property b ''width'', property b ''height'') else None)"
    by (simp add: effective_resize_append effective_resize_applied)
  have own: "?qa = fst (iteratee X options st a [])"
    "?qb = ?qa @ fst (iteratee X options st b [])"
    by (simp_all add: iteratee_eq)
  from calls pa pb diff io ra rb own show ?thesis
    by blast
qed

text \<open>
  The claim as stated has the derivations independent. With the sizes \<open>sm\<close> 100 x 100 and
  \<open>lg\<close> 500 x 500 the state at the second \<open>toFile\<close> holds the call \<open>resize(100, 100)\<close> of
  the first entry, which the second entry's own calls do not make. (Nothing throws in
  this run, so the loop of the middleware is \<open>async_each\<close>, by \<open>async_each_run_objects\<close>.)
\<close>

theorem derivations_not_independent_counterexample:
  "\<not> derivations_independent sample_extern sample_two_sizes sample_state [sample_small, sample_entry]
   \<and> Resize (num 100) (num 100)
        \<in> set (snd (async_each sample_extern sample_two_sizes sample_state
                       [sample_small, sample_entry] [] ! Suc 0))
   \<and> Resize (num 100) (num 100)
        \<notin> set (fst (iteratee sample_extern sample_two_sizes sample_state sample_entry []))"
proof -
  have r: "property sample_two_sizes ''resize'' = JBool True"
    by (simp add: sample_two_sizes_def property_update property_defaultOptions
        documented_default_def)
  have 1: "\<not> derivations_independent sample_extern sample_two_sizes sample_state
               [sample_small, sample_entry]"
    by (simp add: derivations_independent_def async_each_two iteratee_eq applied_toggles_nonempty
        del: async_each.simps)
  have 2: "Resize (num 100) (num 100)
        \<in> set (snd (async_each sample_extern sample_two_sizes sample_state
                       [sample_small, sample_entry] [] ! Suc 0))"
    unfolding async_each_two
    by (simp add: mem_applied r sample_small_def property_Cons)
  have 3: "Resize (num 100) (num 100)
        \<notin> set (fst (iteratee sample_extern sample_two_sizes sample_state sample_entry []))"
    by (simp add: iteratee_eq mem_applied r sample_entry_def property_Cons)
  from 1 2 3 show ?thesis by blast
qed

theorem two_sizes_own_dimensions_on_shared_master_witness:
  "property sample_two_sizes ''sizes'' = JArr [JObj sample_small, JObj sample_entry]
   \<and> snd (middleware sample_extern sample_two_sizes sample_file) = Next_ok sample_state
   \<and> (\<exists>qa qb. toFile_calls (fst (middleware sample_extern sample_two_sizes sample_file))
                 = [(''/var/www/uploads/2017/Jan/5/Xy7.sm.jpg'', qa),
                    (''/var/www/uploads/2017/Jan/5/Xy7.lg.jpg'', qb)]
         \<and> effective_resize qa = Some (num 100, num 100)
         \<and> effective_resize qb = Some (num 500, num 500))"
proof -
  have sizes: "property sample_two_sizes ''sizes'' = JArr [JObj sample_small, JObj sample_entry]"
    by (simp add: sample_two_sizes_def property_update)
  have sa: "property sample_small ''suffix'' = JStr ''sm''"
    and sb: "property sample_entry ''suffix'' = JStr ''lg''"
    by (simp_all add: sample_small_def sample_entry_def property_Cons)
  have ne: "''sm'' \<noteq> ''lg''" by simp
  have up: "snd (masterUpload sample_extern sample_two_sizes sample_file) = Inr sample_state"
    by (subst masterUpload_sample) (simp_all add: sample_two_sizes_def property_update)
  have quiet: "snd (async_each_run sample_extern sample_two_sizes sample_state
                      (size_entries (property sample_two_sizes ''sizes'')) []) = None"
    by (simp only: async_each_run_thrown)
       (simp add: entry_throws_def sample_extern_def list_ex_iff list_all_iff sizes size_entries_JArr)
  have dok: "list_all (\<lambda>(path, q). toFile_io sample_extern path q = None)
               (fst (async_each_run sample_extern sample_two_sizes sample_state
                       (size_entries (property sample_two_sizes ''sizes'')) []))"
    by (simp add: list_all_iff split_def) (simp add: sample_extern_def)
  have un: "unlink_io sample_extern (destination sample_state @ ''/'' @ filename sample_state) = None"
    by (simp add: sample_extern_def)
  from up quiet dok un
  have ok: "snd (middleware sample_extern sample_two_sizes sample_file) = Next_ok sample_state"
    by (simp only: middleware_Next_ok simp_thms)
  have r: "property sample_two_sizes ''resize'' = JBool True"
    "to_str sample_extern (property sample_two_sizes ''output'') = ''jpg''"
    by (simp_all add: sample_two_sizes_def property_update property_defaultOptions
        documented_default_def to_str_def)
  from two_sizes_own_dimensions_on_shared_master [OF sizes sa sb ne ok] sizes ok show ?thesis
    by (simp add: r sample_state_def sample_small_def sample_entry_def property_Cons)
qed

end
